theory Spec2Isabelle
  imports Main "HOL-Library.Sublist"
begin

section \<open>Data of the trading client\<close>

text \<open>
  The client of \<^verbatim>\<open>trading_client.go\<close> is a thin layer over three libraries:
  \<^verbatim>\<open>net/http\<close>, \<^verbatim>\<open>encoding/json\<close> and \<^verbatim>\<open>github.com/pkg/errors\<close>.
  The functions of the client are embedded one by one. What the libraries compute is not
  code of the client: every library function whose result depends on text the client does
  not look at (the syntax scan of a JSON text, the parse of a URL, the network, the
  rendering of a float) is a field of the record \<open>lib\<close>, and the theorems hold for
  every value of that record. What the client decides itself (which struct tags a response
  is decoded through, which status codes are which error, which text goes into which
  message) is written out.
\<close>

subsection \<open>JSON values\<close>

text \<open>
  A JSON text that passed the syntax scan denotes a value. Object members keep their order
  and their duplicates, as the decoder visits them in order. Strings and keys are the
  unquoted byte strings. A number keeps its literal.
\<close>

datatype json =
    JNull
  | JBool bool
  | JNum string
  | JStr string
  | JArr "json list"
  | JObj "(string \<times> json) list"

subsection \<open>Errors\<close>

text \<open>
  \<^verbatim>\<open>type TradingError struct { TrackingID string `json:"trackingId"`; Status string `json:"status"`;
  Payload struct { Message string `json:"message"`; Code string `json:"code"` } `json:"payload"` }\<close>
\<close>

record TradingErrorPayload =
  Message :: string
  Code :: string

record TradingError =
  TrackingID :: string
  Status :: string
  Payload :: TradingErrorPayload

text \<open>
  The error values the client can return. \<open>ErrNotFound\<close> is the package variable
  \<^verbatim>\<open>var ErrNotFound = errors.New("Not found")\<close>; \<open>Errorf\<close> is the result of
  \<^verbatim>\<open>errors.Errorf\<close> (the formatted message); \<open>Wrapf cause msg\<close> is the result of
  \<^verbatim>\<open>errors.Wrapf(cause, ...)\<close>; \<open>LibError\<close> is an error made by a library (the
  transport, the JSON decoder), known by its message only.
\<close>

datatype err =
    ErrNotFound
  | ETradingError TradingError
  | Errorf string
  | Wrapf err string
  | LibError string

text \<open>\<^verbatim>\<open>func (t TradingError) Error() string\<close> and \<^verbatim>\<open>NotEnoughBalance\<close>.\<close>

definition TradingError_Error :: "TradingError \<Rightarrow> string" where
  "TradingError_Error t =
     ''TrackingID: '' @ TrackingID t @ '', Status: '' @ Status t @
     '', Message: '' @ Message (Payload t) @ '', Code: '' @ Code (Payload t)"

definition NotEnoughBalance :: "TradingError \<Rightarrow> bool" where
  "NotEnoughBalance t = (Code (Payload t) = ''NOT_ENOUGH_BALANCE'')"

text \<open>
  The \<^verbatim>\<open>Error()\<close> method of each error value: a wrapped error prints its own message,
  a colon and the message of its cause.
\<close>

fun Error :: "err \<Rightarrow> string" where
  "Error ErrNotFound = ''Not found''"
| "Error (ETradingError t) = TradingError_Error t"
| "Error (Errorf m) = m"
| "Error (Wrapf cause m) = m @ '': '' @ Error cause"
| "Error (LibError m) = m"

subsection \<open>Requests, responses and the libraries\<close>

text \<open>
  The fields of \<^verbatim>\<open>url.URL\<close> a parsed URL is known by. \<open>RawPath\<close> is the library's
  "encoded path hint": the path as it was written, kept only when it differs from the
  default encoding of \<open>Path\<close>, and empty otherwise.
\<close>

record url =
  Scheme :: string
  Host :: string
  Path :: string
  RawPath :: string
  RawQuery :: string

text \<open>
  A \<^verbatim>\<open>*http.Request\<close>: the header is Go's \<^verbatim>\<open>map[string][]string\<close>, here the
  list of its keys with their values, each key once; the body is \<open>None\<close> for a nil
  reader and the bytes of the reader otherwise.
\<close>

record request =
  Method :: string
  URL :: url
  Header :: "(string \<times> string list) list"
  Body :: "string option"

text \<open>
  \<^verbatim>\<open>Header.Set(key, value)\<close> replaces the values of a key by the one value, and
  \<^verbatim>\<open>Header.Get(key)\<close> is the first value of a key, or the empty string. Both put the
  key in canonical form first; the keys the client uses, \<^verbatim>\<open>Content-Type\<close> and
  \<^verbatim>\<open>Authorization\<close>, are in canonical form as written.
\<close>

fun Header_Set :: "(string \<times> string list) list \<Rightarrow> string \<Rightarrow> string \<Rightarrow> (string \<times> string list) list" where
  "Header_Set [] k v = [(k, [v])]"
| "Header_Set ((k', vs) # h) k v =
     (if k' = k then (k, [v]) # h else (k', vs) # Header_Set h k v)"

definition Header_Get :: "(string \<times> string list) list \<Rightarrow> string \<Rightarrow> string" where
  "Header_Get h k = (case map_of h k of None \<Rightarrow> [] | Some vs \<Rightarrow> (case vs of [] \<Rightarrow> [] | v # _ \<Rightarrow> v))"

text \<open>
  What \<^verbatim>\<open>c.httpClient.Do(req)\<close> followed by \<^verbatim>\<open>ioutil.ReadAll(resp.Body)\<close> can
  end in: the call fails, the call answers and reading the body fails, or a status code
  and the whole body arrive.
\<close>

datatype outcome =
    DoFailed string
  | ReadFailed int string
  | Response int string

text \<open>
  The libraries. \<open>'w\<close> is the state of the network, \<open>'f\<close> is \<^verbatim>\<open>float64\<close>,
  \<open>'t\<close> is \<^verbatim>\<open>time.Time\<close>.
  \<^item> \<open>http_Do timeout req w\<close>: the outcome of sending \<open>req\<close> and the next state of
    the network.
  \<^item> \<open>http_NewRequest_URL method u\<close>: the URL \<^verbatim>\<open>http.NewRequest(method, u, body)\<close>
    parses, or \<open>None\<close> when it returns an error (an invalid method or URL).
  \<^item> \<open>json_scan data\<close>: the value a JSON text denotes, or the message of the syntax
    error.
  \<^item> \<open>json_typeError data\<close>: the message of the error \<^verbatim>\<open>json.Unmarshal\<close> returns
    when a value of the text does not fit the Go type it is decoded into.
  \<^item> \<open>json_Marshal_float\<close>, \<open>json_Marshal_string\<close>: the JSON text of a float (none
    for NaN and the infinities) and of a string.
  \<^item> \<open>fmt_v_float\<close>: a float under \<^verbatim>\<open>%+v\<close>.
  \<^item> \<open>time_Format_RFC3339\<close>, \<open>url_QueryEscape\<close>: \<^verbatim>\<open>Time.Format(time.RFC3339)\<close>
    and \<^verbatim>\<open>url.QueryEscape\<close>.
\<close>

record ('w, 'f, 't) lib =
  http_Do :: "nat \<Rightarrow> request \<Rightarrow> 'w \<Rightarrow> outcome \<times> 'w"
  http_NewRequest_URL :: "string \<Rightarrow> string \<Rightarrow> url option"
  json_scan :: "string \<Rightarrow> string + json"
  json_typeError :: "string \<Rightarrow> string"
  json_Marshal_float :: "'f \<Rightarrow> string option"
  json_Marshal_string :: "string \<Rightarrow> string"
  fmt_v_float :: "'f \<Rightarrow> string"
  time_Format_RFC3339 :: "'t \<Rightarrow> string"
  url_QueryEscape :: "string \<Rightarrow> string"

text \<open>
  \<^verbatim>\<open>type TradingClient struct { httpClient *http.Client; token string; apiURL string }\<close>;
  of the HTTP client only its timeout (in seconds) is configuration.
\<close>

record TradingClient =
  httpClient_Timeout :: nat
  token :: string
  apiURL :: string

definition TradingApiURL :: string where
  "TradingApiURL = ''https://api-invest.tinkoff.ru/openapi''"

definition NewTradingClientCustom :: "string \<Rightarrow> string \<Rightarrow> TradingClient" where
  "NewTradingClientCustom tok api = \<lparr>httpClient_Timeout = 5, token = tok, apiURL = api\<rparr>"

definition NewTradingClient :: "string \<Rightarrow> TradingClient" where
  "NewTradingClient tok = NewTradingClientCustom tok TradingApiURL"

text \<open>
  The state a call runs in: the state of the network and the requests handed to
  \<^verbatim>\<open>httpClient.Do\<close> so far, oldest first.
\<close>

type_synonym 'w net = "'w \<times> request list"

section \<open>Formatting\<close>

text \<open>An \<^verbatim>\<open>int\<close> under \<^verbatim>\<open>%d\<close>, and as \<^verbatim>\<open>json.Marshal\<close> writes it.\<close>

fun digits :: "nat \<Rightarrow> string" where
  "digits n =
     (if n < 10 then [''0123456789'' ! n]
      else digits (n div 10) @ [''0123456789'' ! (n mod 10)])"

declare digits.simps [simp del]

definition showInt :: "int \<Rightarrow> string" where
  "showInt i = (if i < 0 then CHR ''-'' # digits (nat (- i)) else digits (nat i))"

section \<open>The JSON decoder on the client's types\<close>

text \<open>
  \<^verbatim>\<open>json.Unmarshal\<close> scans the whole text first and decodes only a text without
  syntax error. Decoding merges a JSON value into the Go value that is already there. It
  goes on after a value that does not fit its Go type and returns the first such error at
  the end; every caller in the client throws the target away when the error is not nil, so
  a decoder here is a function to \<open>option\<close>: \<open>None\<close> when an error is returned.
\<close>

definition asciiLower :: "char \<Rightarrow> char" where
  "asciiLower c =
     (case map_of (zip ''ABCDEFGHIJKLMNOPQRSTUVWXYZ'' ''abcdefghijklmnopqrstuvwxyz'') c of
        None \<Rightarrow> c
      | Some l \<Rightarrow> l)"

text \<open>
  The case-insensitive match of an object key against a field name made of ASCII
  characters: ASCII letters match in either case, and, by Unicode simple case folding, the
  Kelvin sign (U+212A, in UTF-8 \<open>E2 84 AA\<close>) matches \<open>k\<close> and the long s (U+017F, in
  UTF-8 \<open>C5 BF\<close>) matches \<open>s\<close>.
\<close>

fun equalFold :: "string \<Rightarrow> string \<Rightarrow> bool" where
  "equalFold [] k = (k = [])"
| "equalFold (c # cs) k =
     (case k of
        [] \<Rightarrow> False
      | b # bs \<Rightarrow>
          if asciiLower b = asciiLower c then equalFold cs bs
          else if asciiLower c = CHR ''k'' \<and> take 3 k = [CHR 0xE2, CHR 0x84, CHR 0xAA]
            then equalFold cs (drop 3 k)
          else if asciiLower c = CHR ''s'' \<and> take 2 k = [CHR 0xC5, CHR 0xBF]
            then equalFold cs (drop 2 k)
          else False)"

text \<open>
  The field an object key is decoded into: the field whose name is the key, else the first
  field, in declaration order, whose name matches the key case-insensitively, else none
  (the member is skipped).
\<close>

definition findField :: "string list \<Rightarrow> string \<Rightarrow> string option" where
  "findField names k = (if k \<in> set names then Some k else find (\<lambda>n. equalFold n k) names)"

fun decodeMembers ::
  "(string \<Rightarrow> json \<Rightarrow> 's \<Rightarrow> 's option) \<Rightarrow> string list \<Rightarrow> (string \<times> json) list \<Rightarrow> 's \<Rightarrow> 's option"
where
  "decodeMembers setField names [] v = Some v"
| "decodeMembers setField names ((k, x) # kvs) v =
     (case findField names k of
        None \<Rightarrow> decodeMembers setField names kvs v
      | Some n \<Rightarrow>
          (case setField n x v of
             None \<Rightarrow> None
           | Some v' \<Rightarrow> decodeMembers setField names kvs v'))"

text \<open>
  Into a struct: \<^verbatim>\<open>null\<close> changes nothing, an object is decoded member by member,
  every other value does not fit.
\<close>

definition decodeStruct ::
  "(string \<Rightarrow> json \<Rightarrow> 's \<Rightarrow> 's option) \<Rightarrow> string list \<Rightarrow> json \<Rightarrow> 's \<Rightarrow> 's option"
where
  "decodeStruct setField names j v =
     (case j of
        JNull \<Rightarrow> Some v
      | JObj kvs \<Rightarrow> decodeMembers setField names kvs v
      | _ \<Rightarrow> None)"

text \<open>Into a \<^verbatim>\<open>string\<close>: \<^verbatim>\<open>null\<close> changes nothing, a JSON string is stored.\<close>

definition decodeString :: "json \<Rightarrow> string \<Rightarrow> string option" where
  "decodeString j v = (case j of JNull \<Rightarrow> Some v | JStr s \<Rightarrow> Some s | _ \<Rightarrow> None)"

text \<open>
  A slice: nil, or its elements and the elements of its backing array beyond its length
  (what an earlier, longer decode left there). Into a slice: \<^verbatim>\<open>null\<close> makes it nil; an
  array is decoded element by element into the elements of the backing array, a fresh
  (zero) element where the backing array ends, and the slice is cut to the length of the
  array; an empty array makes a new empty slice.
\<close>

datatype 'a slice = NilSlice | Slice "'a list" "'a list"

fun elems :: "'a slice \<Rightarrow> 'a list" where
  "elems NilSlice = []"
| "elems (Slice xs sp) = xs"

fun backing :: "'a slice \<Rightarrow> 'a list" where
  "backing NilSlice = []"
| "backing (Slice xs sp) = xs @ sp"

fun decodeElements :: "(json \<Rightarrow> 'a \<Rightarrow> 'a option) \<Rightarrow> 'a \<Rightarrow> json list \<Rightarrow> 'a list \<Rightarrow> 'a list option" where
  "decodeElements dec z [] old = Some []"
| "decodeElements dec z (j # js) old =
     (case dec j (case old of [] \<Rightarrow> z | x # _ \<Rightarrow> x) of
        None \<Rightarrow> None
      | Some y \<Rightarrow>
          (case decodeElements dec z js (tl old) of
             None \<Rightarrow> None
           | Some ys \<Rightarrow> Some (y # ys)))"

definition decodeSlice ::
  "(json \<Rightarrow> 'a \<Rightarrow> 'a option) \<Rightarrow> 'a \<Rightarrow> json \<Rightarrow> 'a slice \<Rightarrow> 'a slice option"
where
  "decodeSlice dec z j v =
     (case j of
        JNull \<Rightarrow> Some NilSlice
      | JArr js \<Rightarrow>
          (case decodeElements dec z js (backing v) of
             None \<Rightarrow> None
           | Some ys \<Rightarrow>
               if js = [] then Some (Slice [] [])
               else Some (Slice ys (drop (length js) (backing v))))
      | _ \<Rightarrow> None)"

text \<open>
  \<^verbatim>\<open>json.Unmarshal(data, &v)\<close> with the decoder of the type of \<open>v\<close>: the error, or
  the decoded value.
\<close>

definition json_Unmarshal ::
  "('w, 'f, 't) lib \<Rightarrow> (json \<Rightarrow> 'a \<Rightarrow> 'a option) \<Rightarrow> string \<Rightarrow> 'a \<Rightarrow> err + 'a"
where
  "json_Unmarshal L dec data v =
     (case json_scan L data of
        Inl m \<Rightarrow> Inl (LibError m)
      | Inr j \<Rightarrow>
          (case dec j v of
             None \<Rightarrow> Inl (LibError (json_typeError L data))
           | Some v' \<Rightarrow> Inr v'))"

text \<open>The decoder of \<^verbatim>\<open>TradingError\<close>, from its struct tags.\<close>

definition setTradingErrorPayload ::
  "string \<Rightarrow> json \<Rightarrow> TradingErrorPayload \<Rightarrow> TradingErrorPayload option"
where
  "setTradingErrorPayload n x p =
     (if n = ''message'' then map_option (\<lambda>s. p\<lparr>Message := s\<rparr>) (decodeString x (Message p))
      else map_option (\<lambda>s. p\<lparr>Code := s\<rparr>) (decodeString x (Code p)))"

definition decodeTradingErrorPayload ::
  "json \<Rightarrow> TradingErrorPayload \<Rightarrow> TradingErrorPayload option"
where
  "decodeTradingErrorPayload = decodeStruct setTradingErrorPayload [''message'', ''code'']"

definition setTradingError :: "string \<Rightarrow> json \<Rightarrow> TradingError \<Rightarrow> TradingError option" where
  "setTradingError n x t =
     (if n = ''trackingId'' then map_option (\<lambda>s. t\<lparr>TrackingID := s\<rparr>) (decodeString x (TrackingID t))
      else if n = ''status'' then map_option (\<lambda>s. t\<lparr>Status := s\<rparr>) (decodeString x (Status t))
      else map_option (\<lambda>p. t\<lparr>Payload := p\<rparr>) (decodeTradingErrorPayload x (Payload t)))"

definition decodeTradingError :: "json \<Rightarrow> TradingError \<Rightarrow> TradingError option" where
  "decodeTradingError = decodeStruct setTradingError [''trackingId'', ''status'', ''payload'']"

definition zeroTradingError :: TradingError where
  "zeroTradingError =
     \<lparr>TrackingID = [], Status = [], Payload = \<lparr>Message = [], Code = []\<rparr>\<rparr>"

section \<open>The request builder and the response classifier\<close>

text \<open>
  \<^verbatim>\<open>func (c *TradingClient) newRequest(method, url string, body io.Reader) (*http.Request, error)\<close>.
  \<^verbatim>\<open>http.NewRequest\<close> makes a request with an empty header, and reads an empty method
  as GET; the two \<^verbatim>\<open>Header.Set\<close> calls store one value each under keys that are in
  canonical form already.
\<close>

definition newRequest ::
  "('w, 'f, 't) lib \<Rightarrow> TradingClient \<Rightarrow> string \<Rightarrow> string \<Rightarrow> string option \<Rightarrow> err + request"
where
  "newRequest L c method u body =
     (case http_NewRequest_URL L method u of
        None \<Rightarrow> Inl (Errorf (''can't create http request to '' @ u))
      | Some parsed \<Rightarrow>
          Inr \<lparr>Method = (if method = [] then ''GET'' else method),
               URL = parsed,
               Header = Header_Set (Header_Set [] ''Content-Type'' ''application/json'')
                          ''Authorization'' (''Bearer '' @ token c),
               Body = body\<rparr>)"

text \<open>
  \<^verbatim>\<open>func (c *TradingClient) doRequest(req *http.Request) ([]byte, error)\<close>, with Go's
  pair of results as a pair: the bytes (\<open>None\<close> is nil) and the error (\<open>None\<close> is
  nil).
\<close>

definition doRequest ::
  "('w, 'f, 't) lib \<Rightarrow> TradingClient \<Rightarrow> request \<Rightarrow> 'w net \<Rightarrow> (string option \<times> err option) \<times> 'w net"
where
  "doRequest L c req s =
     (case s of (w, sent) \<Rightarrow>
        (case http_Do L (httpClient_Timeout c) req w of (out, w') \<Rightarrow>
           (let s' = (w', sent @ [req]) in
            case out of
              DoFailed m \<Rightarrow>
                ((None, Some (Wrapf (LibError m) (''can't do request to '' @ RawPath (URL req)))), s')
            | ReadFailed code m \<Rightarrow>
                ((None, Some (Wrapf (LibError m)
                                (''can't read response body to '' @ RawPath (URL req)))), s')
            | Response code body \<Rightarrow>
                if code = 200 then ((Some body, None), s')
                else if code = 404 then ((None, Some ErrNotFound), s')
                else
                  (case json_Unmarshal L decodeTradingError body zeroTradingError of
                     Inr tradingError \<Rightarrow> ((None, Some (ETradingError tradingError)), s')
                   | Inl e \<Rightarrow>
                       ((None, Some (Errorf (''bad response to '' @ RawPath (URL req) @
                                             '' code='' @ showInt code @
                                             '', body='' @ body))), s')))))"

section \<open>The endpoints\<close>

text \<open>
  The payload types \<^verbatim>\<open>Instrument\<close>, \<^verbatim>\<open>Operation\<close>, \<^verbatim>\<open>PositionBalance\<close>,
  \<^verbatim>\<open>CurrencyBalance\<close>, \<^verbatim>\<open>PlacedLimitOrder\<close> and \<^verbatim>\<open>Order\<close> are declared in a
  file of the package that is not among the sources. Each is a parameter: a type variable,
  with the zero value of the type and the decoder \<^verbatim>\<open>encoding/json\<close> derives from its
  declaration.
\<close>

record 'a gotype =
  zeroOf :: 'a
  decodeOf :: "json \<Rightarrow> 'a \<Rightarrow> 'a option"

text \<open>
  Modelled from the spec: \<^verbatim>\<open>OperationType\<close> and \<^verbatim>\<open>OperationInterval\<close> are declared
  outside the sources. The client converts an interval with \<^verbatim>\<open>string(interval)\<close>, and
  the spec's limit-order scenario serialises the operation \<^verbatim>\<open>"Buy"\<close> as a JSON string:
  both are string types.
\<close>

type_synonym OperationType = string
type_synonym OperationInterval = string

text \<open>
  \<^verbatim>\<open>Portfolio\<close> is declared outside the sources too; the client builds it as
  \<^verbatim>\<open>Portfolio{Currencies: currencies, Positions: positions}\<close> and returns
  \<^verbatim>\<open>Portfolio{}\<close> on failure, so it is known by these two fields.
\<close>

record ('p, 'c) Portfolio =
  Currencies :: "'c slice"
  Positions :: "'p slice"

text \<open>\<^verbatim>\<open>func (c *TradingClient) SearchInstrumentByFIGI(figi string) (Instrument, error)\<close>\<close>

definition SearchInstrumentByFIGI ::
  "('w, 'f, 't) lib \<Rightarrow> 'i gotype \<Rightarrow> TradingClient \<Rightarrow> string \<Rightarrow> 'w net \<Rightarrow> ('i \<times> err option) \<times> 'w net"
where
  "SearchInstrumentByFIGI L Instrument c figi s =
     (let path = apiURL c @ ''/market/search/by-figi?figi='' @ figi in
      case newRequest L c ''GET'' path None of
        Inl e \<Rightarrow> ((zeroOf Instrument, Some e), s)
      | Inr req \<Rightarrow>
          (case doRequest L c req s of
             ((respBody, Some e), s') \<Rightarrow> ((zeroOf Instrument, Some e), s')
           | ((respBody, None), s') \<Rightarrow>
               (case json_Unmarshal L (decodeStruct (\<lambda>n. decodeOf Instrument) [''payload''])
                       (case respBody of None \<Rightarrow> [] | Some b \<Rightarrow> b) (zeroOf Instrument) of
                  Inl e \<Rightarrow>
                    ((zeroOf Instrument,
                      Some (Wrapf e (''can't unmarshal response to '' @ path @ '', respBody='' @
                                     (case respBody of None \<Rightarrow> [] | Some b \<Rightarrow> b)))), s')
                | Inr resp \<Rightarrow> ((resp, None), s'))))"

text \<open>\<^verbatim>\<open>func (c *TradingClient) instruments(path string) ([]Instrument, error)\<close>\<close>

definition instruments ::
  "('w, 'f, 't) lib \<Rightarrow> 'i gotype \<Rightarrow> TradingClient \<Rightarrow> string \<Rightarrow> 'w net \<Rightarrow> ('i slice \<times> err option) \<times> 'w net"
where
  "instruments L Instrument c path s =
     (case newRequest L c ''GET'' path None of
        Inl e \<Rightarrow> ((NilSlice, Some e), s)
      | Inr req \<Rightarrow>
          (case doRequest L c req s of
             ((respBody, Some e), s') \<Rightarrow> ((NilSlice, Some e), s')
           | ((respBody, None), s') \<Rightarrow>
               (case json_Unmarshal L
                       (decodeStruct
                          (\<lambda>n. decodeStruct
                                 (\<lambda>n. decodeSlice (decodeOf Instrument) (zeroOf Instrument))
                                 [''instruments''])
                          [''payload''])
                       (case respBody of None \<Rightarrow> [] | Some b \<Rightarrow> b) NilSlice of
                  Inl e \<Rightarrow>
                    ((NilSlice,
                      Some (Wrapf e (''can't unmarshal response to '' @ path @ '', respBody='' @
                                     (case respBody of None \<Rightarrow> [] | Some b \<Rightarrow> b)))), s')
                | Inr resp \<Rightarrow> ((resp, None), s'))))"

definition SearchInstrumentByTicker ::
  "('w, 'f, 't) lib \<Rightarrow> 'i gotype \<Rightarrow> TradingClient \<Rightarrow> string \<Rightarrow> 'w net \<Rightarrow> ('i slice \<times> err option) \<times> 'w net"
where
  "SearchInstrumentByTicker L Instrument c ticker s =
     instruments L Instrument c (apiURL c @ ''/market/search/by-ticker?ticker='' @ ticker) s"

definition Currencies_endpoint ::
  "('w, 'f, 't) lib \<Rightarrow> 'i gotype \<Rightarrow> TradingClient \<Rightarrow> 'w net \<Rightarrow> ('i slice \<times> err option) \<times> 'w net"
where
  "Currencies_endpoint L Instrument c s = instruments L Instrument c (apiURL c @ ''/market/currencies'') s"

definition ETFs ::
  "('w, 'f, 't) lib \<Rightarrow> 'i gotype \<Rightarrow> TradingClient \<Rightarrow> 'w net \<Rightarrow> ('i slice \<times> err option) \<times> 'w net"
where
  "ETFs L Instrument c s = instruments L Instrument c (apiURL c @ ''/market/etfs'') s"

definition Bonds ::
  "('w, 'f, 't) lib \<Rightarrow> 'i gotype \<Rightarrow> TradingClient \<Rightarrow> 'w net \<Rightarrow> ('i slice \<times> err option) \<times> 'w net"
where
  "Bonds L Instrument c s = instruments L Instrument c (apiURL c @ ''/market/bonds'') s"

definition Stocks ::
  "('w, 'f, 't) lib \<Rightarrow> 'i gotype \<Rightarrow> TradingClient \<Rightarrow> 'w net \<Rightarrow> ('i slice \<times> err option) \<times> 'w net"
where
  "Stocks L Instrument c s = instruments L Instrument c (apiURL c @ ''/market/stocks'') s"

text \<open>
  \<^verbatim>\<open>func (c *TradingClient) Operations(from time.Time, interval OperationInterval, figi string) ([]Operation, error)\<close>.
  \<^verbatim>\<open>url.Values.Encode\<close> writes the keys in sorted order (\<open>figi\<close>, \<open>from\<close>,
  \<open>interval\<close>), each as \<open>key=value\<close> with the value query-escaped, joined by \<open>&\<close>.
\<close>

definition Operations ::
  "('w, 'f, 't) lib \<Rightarrow> 'o gotype \<Rightarrow> TradingClient \<Rightarrow> 't \<Rightarrow> OperationInterval \<Rightarrow> string \<Rightarrow> 'w net
     \<Rightarrow> ('o slice \<times> err option) \<times> 'w net"
where
  "Operations L Operation c from interval figi s =
     (let q = (if figi \<noteq> [] then ''figi='' @ url_QueryEscape L figi @ ''&'' else []) @
              ''from='' @ url_QueryEscape L (time_Format_RFC3339 L from) @
              ''&interval='' @ url_QueryEscape L interval;
          path = apiURL c @ ''/operations?'' @ q in
      case newRequest L c ''GET'' path None of
        Inl e \<Rightarrow> ((NilSlice, Some e), s)
      | Inr req \<Rightarrow>
          (case doRequest L c req s of
             ((respBody, Some e), s') \<Rightarrow> ((NilSlice, Some e), s')
           | ((respBody, None), s') \<Rightarrow>
               (case json_Unmarshal L
                       (decodeStruct (\<lambda>n. decodeSlice (decodeOf Operation) (zeroOf Operation))
                          [''payload''])
                       (case respBody of None \<Rightarrow> [] | Some b \<Rightarrow> b) NilSlice of
                  Inl e \<Rightarrow>
                    ((NilSlice,
                      Some (Wrapf e (''can't unmarshal response to '' @ path @ '', respBody='' @
                                     (case respBody of None \<Rightarrow> [] | Some b \<Rightarrow> b)))), s')
                | Inr resp \<Rightarrow> ((resp, None), s'))))"

text \<open>\<^verbatim>\<open>func (c *TradingClient) PositionsPortfolio() ([]PositionBalance, error)\<close>\<close>

definition PositionsPortfolio ::
  "('w, 'f, 't) lib \<Rightarrow> 'p gotype \<Rightarrow> TradingClient \<Rightarrow> 'w net \<Rightarrow> ('p slice \<times> err option) \<times> 'w net"
where
  "PositionsPortfolio L PositionBalance c s =
     (let path = apiURL c @ ''/portfolio'' in
      case newRequest L c ''GET'' path None of
        Inl e \<Rightarrow> ((NilSlice, Some e), s)
      | Inr req \<Rightarrow>
          (case doRequest L c req s of
             ((respBody, Some e), s') \<Rightarrow> ((NilSlice, Some e), s')
           | ((respBody, None), s') \<Rightarrow>
               (case json_Unmarshal L
                       (decodeStruct
                          (\<lambda>n. decodeStruct
                                 (\<lambda>n. decodeSlice (decodeOf PositionBalance) (zeroOf PositionBalance))
                                 [''positions''])
                          [''payload''])
                       (case respBody of None \<Rightarrow> [] | Some b \<Rightarrow> b) NilSlice of
                  Inl e \<Rightarrow>
                    ((NilSlice,
                      Some (Wrapf e (''can't unmarshal response to '' @ path @ '', respBody='' @
                                     (case respBody of None \<Rightarrow> [] | Some b \<Rightarrow> b)))), s')
                | Inr resp \<Rightarrow> ((resp, None), s'))))"

text \<open>\<^verbatim>\<open>func (c *TradingClient) CurrenciesPortfolio() ([]CurrencyBalance, error)\<close>\<close>

definition CurrenciesPortfolio ::
  "('w, 'f, 't) lib \<Rightarrow> 'c gotype \<Rightarrow> TradingClient \<Rightarrow> 'w net \<Rightarrow> ('c slice \<times> err option) \<times> 'w net"
where
  "CurrenciesPortfolio L CurrencyBalance c s =
     (let path = apiURL c @ ''/portfolio/currencies'' in
      case newRequest L c ''GET'' path None of
        Inl e \<Rightarrow> ((NilSlice, Some e), s)
      | Inr req \<Rightarrow>
          (case doRequest L c req s of
             ((respBody, Some e), s') \<Rightarrow> ((NilSlice, Some e), s')
           | ((respBody, None), s') \<Rightarrow>
               (case json_Unmarshal L
                       (decodeStruct
                          (\<lambda>n. decodeStruct
                                 (\<lambda>n. decodeSlice (decodeOf CurrencyBalance) (zeroOf CurrencyBalance))
                                 [''currencies''])
                          [''payload''])
                       (case respBody of None \<Rightarrow> [] | Some b \<Rightarrow> b) NilSlice of
                  Inl e \<Rightarrow>
                    ((NilSlice,
                      Some (Wrapf e (''can't unmarshal response to '' @ path @ '', respBody='' @
                                     (case respBody of None \<Rightarrow> [] | Some b \<Rightarrow> b)))), s')
                | Inr resp \<Rightarrow> ((resp, None), s'))))"

text \<open>\<^verbatim>\<open>func (c *TradingClient) Portfolio() (Portfolio, error)\<close>\<close>

definition Portfolio_endpoint ::
  "('w, 'f, 't) lib \<Rightarrow> 'p gotype \<Rightarrow> 'c gotype \<Rightarrow> TradingClient \<Rightarrow> 'w net
     \<Rightarrow> (('p, 'c) Portfolio \<times> err option) \<times> 'w net"
where
  "Portfolio_endpoint L PositionBalance CurrencyBalance c s =
     (case PositionsPortfolio L PositionBalance c s of
        ((positions, Some e), s') \<Rightarrow> ((\<lparr>Currencies = NilSlice, Positions = NilSlice\<rparr>, Some e), s')
      | ((positions, None), s') \<Rightarrow>
          (case CurrenciesPortfolio L CurrencyBalance c s' of
             ((currencies, Some e), s'') \<Rightarrow>
               ((\<lparr>Currencies = NilSlice, Positions = NilSlice\<rparr>, Some e), s'')
           | ((currencies, None), s'') \<Rightarrow>
               ((\<lparr>Currencies = currencies, Positions = positions\<rparr>, None), s'')))"

text \<open>
  \<^verbatim>\<open>func (c *TradingClient) postJSONThrow(url string, body interface{}) error\<close>. The
  body is \<open>None\<close> for nil and otherwise a value with the JSON text \<^verbatim>\<open>json.Marshal\<close>
  gives it (none when it fails). With a nil body, \<^verbatim>\<open>bb\<close> stays nil and
  \<^verbatim>\<open>bytes.NewReader(bb)\<close> is a reader of no bytes.
\<close>

definition postJSONThrow ::
  "('w, 'f, 't) lib \<Rightarrow> TradingClient \<Rightarrow> string \<Rightarrow> ('b \<times> ('b \<Rightarrow> string option)) option \<Rightarrow> 'w net
     \<Rightarrow> err option \<times> 'w net"
where
  "postJSONThrow L c u body s =
     (case (case body of
              None \<Rightarrow> Inr []
            | Some (b, marshal) \<Rightarrow>
                (case marshal b of
                   None \<Rightarrow> Inl (Errorf (''can't marshal request body to '' @ u))
                 | Some bb \<Rightarrow> Inr bb)) of
        Inl e \<Rightarrow> (Some e, s)
      | Inr bb \<Rightarrow>
          (case newRequest L c ''POST'' u (Some bb) of
             Inl e \<Rightarrow> (Some e, s)
           | Inr req \<Rightarrow>
               (case doRequest L c req s of
                  ((respBody, e), s') \<Rightarrow> (e, s'))))"

text \<open>\<^verbatim>\<open>func (c *TradingClient) OrderCancel(id string) error\<close>\<close>

definition OrderCancel ::
  "('w, 'f, 't) lib \<Rightarrow> TradingClient \<Rightarrow> string \<Rightarrow> 'w net \<Rightarrow> err option \<times> 'w net"
where
  "OrderCancel L c ident s =
     postJSONThrow L c (apiURL c @ ''/orders/cancel?orderId='' @ ident)
       (None :: (unit \<times> (unit \<Rightarrow> string option)) option) s"

text \<open>
  \<^verbatim>\<open>func (c *TradingClient) LimitOrder(figi string, lots int, operation OperationType, price float64) (PlacedLimitOrder, error)\<close>.
  \<^verbatim>\<open>json.Marshal\<close> writes the fields of the anonymous struct in declaration order under
  their tags, and fails only on a float without JSON text; the error message prints the
  struct under \<^verbatim>\<open>%+v\<close>.
\<close>

definition LimitOrder ::
  "('w, 'f, 't) lib \<Rightarrow> 'l gotype \<Rightarrow> TradingClient \<Rightarrow> string \<Rightarrow> int \<Rightarrow> OperationType \<Rightarrow> 'f \<Rightarrow> 'w net
     \<Rightarrow> ('l \<times> err option) \<times> 'w net"
where
  "LimitOrder L PlacedLimitOrder c figi lots operation price s =
     (let path = apiURL c @ ''/orders/limit-order?figi='' @ figi in
      case json_Marshal_float L price of
        None \<Rightarrow>
          ((zeroOf PlacedLimitOrder,
            Some (Errorf (''can't marshal request to '' @ path @ '' body='' @
                          ''{Lots:'' @ showInt lots @ '' Operation:'' @ operation @
                          '' Price:'' @ fmt_v_float L price @ ''}''))), s)
      | Some priceText \<Rightarrow>
          (let bb = ''{\"lots\":'' @ showInt lots @
                    '',\"operation\":'' @ json_Marshal_string L operation @
                    '',\"price\":'' @ priceText @ ''}'' in
           case newRequest L c ''POST'' path (Some bb) of
             Inl e \<Rightarrow> ((zeroOf PlacedLimitOrder, Some e), s)
           | Inr req \<Rightarrow>
               (case doRequest L c req s of
                  ((respBody, Some e), s') \<Rightarrow> ((zeroOf PlacedLimitOrder, Some e), s')
                | ((respBody, None), s') \<Rightarrow>
                    (case json_Unmarshal L
                            (decodeStruct (\<lambda>n. decodeOf PlacedLimitOrder) [''payload''])
                            (case respBody of None \<Rightarrow> [] | Some b \<Rightarrow> b)
                            (zeroOf PlacedLimitOrder) of
                       Inl e \<Rightarrow>
                         ((zeroOf PlacedLimitOrder,
                           Some (Wrapf e (''can't unmarshal response to '' @ path @
                                          '', respBody='' @
                                          (case respBody of None \<Rightarrow> [] | Some b \<Rightarrow> b)))), s')
                     | Inr resp \<Rightarrow> ((resp, None), s')))))"

text \<open>\<^verbatim>\<open>func (c *TradingClient) Orders() ([]Order, error)\<close>\<close>

definition Orders ::
  "('w, 'f, 't) lib \<Rightarrow> 'r gotype \<Rightarrow> TradingClient \<Rightarrow> 'w net \<Rightarrow> ('r slice \<times> err option) \<times> 'w net"
where
  "Orders L Order c s =
     (let path = apiURL c @ ''/orders'' in
      case newRequest L c ''GET'' path None of
        Inl e \<Rightarrow> ((NilSlice, Some e), s)
      | Inr req \<Rightarrow>
          (case doRequest L c req s of
             ((respBody, Some e), s') \<Rightarrow> ((NilSlice, Some e), s')
           | ((respBody, None), s') \<Rightarrow>
               (case json_Unmarshal L
                       (decodeStruct (\<lambda>n. decodeSlice (decodeOf Order) (zeroOf Order)) [''payload''])
                       (case respBody of None \<Rightarrow> [] | Some b \<Rightarrow> b) NilSlice of
                  Inl e \<Rightarrow>
                    ((NilSlice,
                      Some (Wrapf e (''can't unmarshal response to '' @ path @ '', respBody='' @
                                     (case respBody of None \<Rightarrow> [] | Some b \<Rightarrow> b)))), s')
                | Inr resp \<Rightarrow> ((resp, None), s'))))"

section \<open>A library to run the client on concrete inputs\<close>

text \<open>
  The theorems below hold for every library. To run the client on a concrete input, the
  library \<open>testLib\<close> stands in for Go's: a scripted network, and small versions of the
  library functions that agree with Go's on the texts they accept and reject every other
  text.
\<close>

subsection \<open>A scanner for JSON texts\<close>

text \<open>
  The scanner reads a text byte by byte, as the scanner of \<^verbatim>\<open>encoding/json\<close> does,
  with a stack of the arrays and objects that are open. It accepts the JSON grammar, with
  one restriction: a string is made of printable ASCII characters other than the quote and
  the backslash (no escape sequences, no bytes beyond ASCII), so that a string's value is
  its text.
\<close>

datatype frame = InArr "json list" | InObj "(string \<times> json) list" "string option"

datatype phase = Value | FirstElem | FirstKey | Key | Colon | After | InStr string | InAtom string | Stop

type_synonym scanner = "phase \<times> frame list \<times> json option"

definition isSpace :: "char \<Rightarrow> bool" where
  "isSpace c = (c \<in> set [CHR '' '', CHR 0x09, CHR 0x0A, CHR 0x0D])"

definition isDigit :: "char \<Rightarrow> bool" where
  "isDigit c = (c \<in> set ''0123456789'')"

definition isLetter :: "char \<Rightarrow> bool" where
  "isLetter c = (c \<in> set ''abcdefghijklmnopqrstuvwxyzABCDEFGHIJKLMNOPQRSTUVWXYZ'')"

definition validExp :: "string \<Rightarrow> bool" where
  "validExp r =
     (case r of
        [] \<Rightarrow> True
      | e # r' \<Rightarrow>
          (e = CHR ''e'' \<or> e = CHR ''E'') \<and>
          (let ds = (case r' of [] \<Rightarrow> [] | g # t \<Rightarrow> if g = CHR ''+'' \<or> g = CHR ''-'' then t else r')
           in ds \<noteq> [] \<and> list_all isDigit ds))"

definition validFrac :: "string \<Rightarrow> bool" where
  "validFrac r =
     (case r of
        [] \<Rightarrow> True
      | d # r' \<Rightarrow>
          if d = CHR ''.'' then takeWhile isDigit r' \<noteq> [] \<and> validExp (dropWhile isDigit r')
          else validExp r)"

definition validNumber :: "string \<Rightarrow> bool" where
  "validNumber a =
     (let u = (case a of [] \<Rightarrow> [] | g # t \<Rightarrow> if g = CHR ''-'' then t else a);
          ip = takeWhile isDigit u
      in ip \<noteq> [] \<and> (ip = ''0'' \<or> take 1 ip \<noteq> ''0'') \<and> validFrac (dropWhile isDigit u))"

definition atomValue :: "string \<Rightarrow> json option" where
  "atomValue a =
     (if a = ''true'' then Some (JBool True)
      else if a = ''false'' then Some (JBool False)
      else if a = ''null'' then Some JNull
      else if validNumber a then Some (JNum a)
      else None)"

fun complete :: "json \<Rightarrow> frame list \<Rightarrow> json option \<Rightarrow> scanner" where
  "complete v [] res = (After, [], Some v)"
| "complete v (InArr xs # st) res = (After, InArr (v # xs) # st, res)"
| "complete v (InObj kvs (Some k) # st) res = (After, InObj ((k, v) # kvs) None # st, res)"
| "complete v (InObj kvs None # st) res =
     (case v of JStr k \<Rightarrow> (Colon, InObj kvs (Some k) # st, res) | _ \<Rightarrow> (Stop, [], None))"

definition startValue :: "char \<Rightarrow> frame list \<Rightarrow> json option \<Rightarrow> scanner" where
  "startValue c st res =
     (if c = CHR ''['' then (FirstElem, InArr [] # st, res)
      else if c = CHR ''{'' then (FirstKey, InObj [] None # st, res)
      else if c = CHR 0x22 then (InStr [], st, res)
      else if isDigit c \<or> isLetter c \<or> c = CHR ''-'' then (InAtom [c], st, res)
      else (Stop, [], None))"

definition closeArr :: "frame list \<Rightarrow> json option \<Rightarrow> scanner" where
  "closeArr st res =
     (case st of InArr xs # st' \<Rightarrow> complete (JArr (rev xs)) st' res | _ \<Rightarrow> (Stop, [], None))"

definition closeObj :: "frame list \<Rightarrow> json option \<Rightarrow> scanner" where
  "closeObj st res =
     (case st of InObj kvs None # st' \<Rightarrow> complete (JObj (rev kvs)) st' res | _ \<Rightarrow> (Stop, [], None))"

definition afterValue :: "char \<Rightarrow> frame list \<Rightarrow> json option \<Rightarrow> scanner" where
  "afterValue c st res =
     (if isSpace c then (After, st, res)
      else if c = CHR '','' then
        (case st of
           InArr xs # st' \<Rightarrow> (Value, st, res)
         | InObj kvs None # st' \<Rightarrow> (Key, st, res)
         | _ \<Rightarrow> (Stop, [], None))
      else if c = CHR '']'' then closeArr st res
      else if c = CHR ''}'' then closeObj st res
      else (Stop, [], None))"

definition plainChar :: "char \<Rightarrow> bool" where
  "plainChar c =
     (isDigit c \<or> isLetter c \<or> c \<in> set '' !#$%&'()*+,-./:;<=>?@[]^_`{|}~'')"

fun step :: "scanner \<Rightarrow> char \<Rightarrow> scanner" where
  "step (Value, st, res) c = (if isSpace c then (Value, st, res) else startValue c st res)"
| "step (FirstElem, st, res) c =
     (if isSpace c then (FirstElem, st, res)
      else if c = CHR '']'' then closeArr st res
      else startValue c st res)"
| "step (FirstKey, st, res) c =
     (if isSpace c then (FirstKey, st, res)
      else if c = CHR 0x22 then (InStr [], st, res)
      else if c = CHR ''}'' then closeObj st res
      else (Stop, [], None))"
| "step (Key, st, res) c =
     (if isSpace c then (Key, st, res)
      else if c = CHR 0x22 then (InStr [], st, res)
      else (Stop, [], None))"
| "step (Colon, st, res) c =
     (if isSpace c then (Colon, st, res)
      else if c = CHR '':'' then (Value, st, res)
      else (Stop, [], None))"
| "step (After, st, res) c = afterValue c st res"
| "step (InStr acc, st, res) c =
     (if c = CHR 0x22 then complete (JStr (rev acc)) st res
      else if plainChar c then (InStr (c # acc), st, res)
      else (Stop, [], None))"
| "step (InAtom acc, st, res) c =
     (if isDigit c \<or> isLetter c \<or> c \<in> set ''+-.'' then (InAtom (c # acc), st, res)
      else
        (case atomValue (rev acc) of
           None \<Rightarrow> (Stop, [], None)
         | Some v \<Rightarrow>
             (case complete v st res of
                (After, st', res') \<Rightarrow> afterValue c st' res'
              | _ \<Rightarrow> (Stop, [], None))))"
| "step (Stop, st, res) c = (Stop, [], None)"

definition finish :: "scanner \<Rightarrow> string + json" where
  "finish sc =
     (case sc of
        (After, [], Some v) \<Rightarrow> Inr v
      | (InAtom acc, [], None) \<Rightarrow>
          (case atomValue (rev acc) of None \<Rightarrow> Inl ''invalid JSON'' | Some v \<Rightarrow> Inr v)
      | _ \<Rightarrow> Inl ''invalid JSON'')"

definition scanJSON :: "string \<Rightarrow> string + json" where
  "scanJSON data = finish (foldl step (Value, [], None) data)"

subsection \<open>URLs, numbers and strings\<close>

text \<open>
  A URL of the form \<open>scheme://host/path?query\<close> whose path is made of unreserved
  characters and slashes. The default encoding of such a path is the path itself, so
  \<^verbatim>\<open>url.Parse\<close> leaves \<open>RawPath\<close> empty.
\<close>

definition parseURL :: "string \<Rightarrow> url option" where
  "parseURL u =
     (let scheme = takeWhile (\<lambda>c. c \<noteq> CHR '':'') u;
          r = dropWhile (\<lambda>c. c \<noteq> CHR '':'') u;
          a = drop 3 r;
          host = takeWhile (\<lambda>c. c \<noteq> CHR ''/'' \<and> c \<noteq> CHR ''?'') a;
          pq = dropWhile (\<lambda>c. c \<noteq> CHR ''/'' \<and> c \<noteq> CHR ''?'') a;
          path = takeWhile (\<lambda>c. c \<noteq> CHR ''?'') pq;
          q = drop 1 (dropWhile (\<lambda>c. c \<noteq> CHR ''?'') pq)
      in if scheme \<noteq> [] \<and> list_all isLetter scheme \<and> take 3 r = ''://'' \<and> host \<noteq> [] \<and>
            list_all (\<lambda>c. isDigit c \<or> isLetter c \<or> c \<in> set ''-.'') host \<and>
            list_all (\<lambda>c. isDigit c \<or> isLetter c \<or> c \<in> set ''-._~/'') path \<and>
            list_all (\<lambda>c. isDigit c \<or> isLetter c \<or> c \<in> set ''-._~=&+%:'') q
         then Some \<lparr>Scheme = map asciiLower scheme, Host = host, Path = path, RawPath = [],
                    RawQuery = q\<rparr>
         else None)"

definition test_NewRequest_URL :: "string \<Rightarrow> string \<Rightarrow> url option" where
  "test_NewRequest_URL method u = (if list_all isLetter method then parseURL u else None)"

text \<open>
  The network: the outcomes of the coming calls, in order; a call beyond the script fails.
\<close>

definition test_Do :: "nat \<Rightarrow> request \<Rightarrow> outcome list \<Rightarrow> outcome \<times> outcome list" where
  "test_Do timeout req w =
     (case w of [] \<Rightarrow> (DoFailed ''connection refused'', []) | out # rest \<Rightarrow> (out, rest))"

text \<open>
  Floats: NaN, the infinities, and the floats nearest to a decimal number
  \<open>m / 10 ^ k\<close> of few digits whose last digit is not zero, which Go prints as that
  decimal number.
\<close>

datatype decimal = Finite int nat | NaN | PosInf | NegInf

definition showDecimal :: "int \<Rightarrow> nat \<Rightarrow> string" where
  "showDecimal m k =
     (if k = 0 then showInt m
      else
        (let ip = digits (nat \<bar>m\<bar> div 10 ^ k); fp = digits (nat \<bar>m\<bar> mod 10 ^ k)
         in (if m < 0 then ''-'' else []) @ ip @ ''.'' @ replicate (k - length fp) (CHR ''0'') @ fp))"

fun test_Marshal_float :: "decimal \<Rightarrow> string option" where
  "test_Marshal_float (Finite m k) = Some (showDecimal m k)"
| "test_Marshal_float NaN = None"
| "test_Marshal_float PosInf = None"
| "test_Marshal_float NegInf = None"

fun test_v_float :: "decimal \<Rightarrow> string" where
  "test_v_float (Finite m k) = showDecimal m k"
| "test_v_float NaN = ''NaN''"
| "test_v_float PosInf = ''+Inf''"
| "test_v_float NegInf = ''-Inf''"

text \<open>
  The JSON text of a string of printable ASCII characters: between quotes, with the quote
  and the backslash escaped by a backslash, and \<open><\<close>, \<open>>\<close> and \<open>&\<close> written as
  \<open><\<close>, \<open>>\<close> and \<open>&\<close>.
\<close>

definition escapeChar :: "char \<Rightarrow> string" where
  "escapeChar c =
     (if c = CHR 0x22 \<or> c = CHR 0x5C then [CHR 0x5C, c]
      else if c = CHR ''<'' then CHR 0x5C # ''u003c''
      else if c = CHR ''>'' then CHR 0x5C # ''u003e''
      else if c = CHR ''&'' then CHR 0x5C # ''u0026''
      else [c])"

definition test_Marshal_string :: "string \<Rightarrow> string" where
  "test_Marshal_string x = CHR 0x22 # concat (map escapeChar x) @ [CHR 0x22]"

text \<open>
  \<^verbatim>\<open>url.QueryEscape\<close> on printable ASCII: letters, digits and \<open>-_.~\<close> stay, a space
  becomes \<open>+\<close>, every other character becomes \<open>%\<close> and its code in two hexadecimal
  digits.
\<close>

definition test_QueryEscape :: "string \<Rightarrow> string" where
  "test_QueryEscape x =
     concat (map (\<lambda>c. if isDigit c \<or> isLetter c \<or> c \<in> set ''-_.~'' then [c]
                       else if c = CHR '' '' then ''+''
                       else [CHR ''%'', ''0123456789ABCDEF'' ! (of_char c div 16),
                             ''0123456789ABCDEF'' ! (of_char c mod 16)]) x)"

text \<open>A time is given by its RFC 3339 text.\<close>

definition testLib :: "(outcome list, decimal, string) lib" where
  "testLib =
     \<lparr>http_Do = test_Do,
      http_NewRequest_URL = test_NewRequest_URL,
      json_scan = scanJSON,
      json_typeError = (\<lambda>data. ''json: cannot unmarshal value into Go value''),
      json_Marshal_float = test_Marshal_float,
      json_Marshal_string = test_Marshal_string,
      fmt_v_float = test_v_float,
      time_Format_RFC3339 = (\<lambda>t. t),
      url_QueryEscape = test_QueryEscape\<rparr>"

text \<open>A client, a request of it and a payload type to run the endpoints on.\<close>

definition testClient :: TradingClient where
  "testClient = NewTradingClientCustom ''t0ken'' TradingApiURL"

definition ordersRequest :: request where
  "ordersRequest =
     \<lparr>Method = ''GET'',
      URL = \<lparr>Scheme = ''https'', Host = ''api-invest.tinkoff.ru'', Path = ''/openapi/orders'',
             RawPath = [], RawQuery = []\<rparr>,
      Header = [(''Content-Type'', [''application/json'']),
                (''Authorization'', [''Bearer t0ken''])],
      Body = None\<rparr>"

section \<open>Notions the properties are stated with\<close>

text \<open>
  What the endpoints that decode a response share, to prove their properties once: build
  the request, send it and classify the response, decode a success body. Each such
  endpoint is proved to be an instance (\<open>SearchInstrumentByFIGI_call\<close> and the lemmas
  after it).
\<close>

definition call ::
  "('w, 'f, 't) lib \<Rightarrow> TradingClient \<Rightarrow> string \<Rightarrow> string \<Rightarrow> string option \<Rightarrow> (json \<Rightarrow> 'a \<Rightarrow> 'a option) \<Rightarrow> 'a
     \<Rightarrow> 'w net \<Rightarrow> ('a \<times> err option) \<times> 'w net"
where
  "call L c method path body dec z s =
     (case newRequest L c method path body of
        Inl e \<Rightarrow> ((z, Some e), s)
      | Inr req \<Rightarrow>
          (case doRequest L c req s of
             ((respBody, Some e), s') \<Rightarrow> ((z, Some e), s')
           | ((respBody, None), s') \<Rightarrow>
               (case json_Unmarshal L dec (case respBody of None \<Rightarrow> [] | Some b \<Rightarrow> b) z of
                  Inl e \<Rightarrow>
                    ((z, Some (Wrapf e (''can't unmarshal response to '' @ path @ '', respBody='' @
                                        (case respBody of None \<Rightarrow> [] | Some b \<Rightarrow> b)))), s')
                | Inr resp \<Rightarrow> ((resp, None), s'))))"

text \<open>
  A request carries the two headers; between two states of a run, every request that was
  sent carries them.
\<close>

definition authorized :: "TradingClient \<Rightarrow> request \<Rightarrow> bool" where
  "authorized c req =
     (map_of (Header req) ''Authorization'' = Some [''Bearer '' @ token c] \<and>
      map_of (Header req) ''Content-Type'' = Some [''application/json''])"

definition sends_authorized :: "TradingClient \<Rightarrow> 'w net \<Rightarrow> 'w net \<Rightarrow> bool" where
  "sends_authorized c s s' = (\<exists>new. snd s' = snd s @ new \<and> list_all (authorized c) new)"

text \<open>A payload type for the examples: Go's \<^verbatim>\<open>string\<close>.\<close>

definition stringType :: "string gotype" where
  "stringType = \<lparr>zeroOf = [], decodeOf = decodeString\<rparr>"

text \<open>
  The broker's error envelope, as the spec documents it: an object with the members
  \<open>trackingId\<close>, \<open>status\<close> and \<open>payload\<close>, in any order, the first two strings and
  the third an object with the string members \<open>message\<close> and \<open>code\<close>.
\<close>

definition errorEnvelope :: "json \<Rightarrow> string \<Rightarrow> string \<Rightarrow> string \<Rightarrow> string \<Rightarrow> bool" where
  "errorEnvelope j t st m cd =
     (case j of
        JObj kvs \<Rightarrow>
          distinct (map fst kvs) \<and>
          set (map fst kvs) = {''trackingId'', ''status'', ''payload''} \<and>
          map_of kvs ''trackingId'' = Some (JStr t) \<and>
          map_of kvs ''status'' = Some (JStr st) \<and>
          (case map_of kvs ''payload'' of
             Some (JObj pkvs) \<Rightarrow>
               distinct (map fst pkvs) \<and>
               set (map fst pkvs) = {''message'', ''code''} \<and>
               map_of pkvs ''message'' = Some (JStr m) \<and>
               map_of pkvs ''code'' = Some (JStr cd)
           | _ \<Rightarrow> False)
      | _ \<Rightarrow> False)"

text \<open>
  The request built for a method, URL and body is answered with status 200 and a body.
\<close>

definition answers_200 ::
  "('w, 'f, 't) lib \<Rightarrow> TradingClient \<Rightarrow> string \<Rightarrow> string \<Rightarrow> string option \<Rightarrow> string \<Rightarrow> 'w \<Rightarrow> 'w \<Rightarrow> bool"
where
  "answers_200 L c verb path reqBody body w w' =
     (case newRequest L c verb path reqBody of
        Inl e \<Rightarrow> False
      | Inr req \<Rightarrow> http_Do L (httpClient_Timeout c) req w = (Response 200 body, w'))"

text \<open>
  The JSON value \<^verbatim>\<open>json.Marshal\<close> gives a slice, from the values of its elements:
  \<^verbatim>\<open>null\<close> for a nil slice, an array otherwise. Two slices are the same payload when
  they have the same elements and both or neither are nil.
\<close>

definition encodeSlice :: "('a \<Rightarrow> json) \<Rightarrow> 'a slice \<Rightarrow> json" where
  "encodeSlice enc p = (case p of NilSlice \<Rightarrow> JNull | Slice xs sp \<Rightarrow> JArr (map enc xs))"

definition sameSlice :: "'a slice \<Rightarrow> 'a slice \<Rightarrow> bool" where
  "sameSlice r p = (elems r = elems p \<and> (r = NilSlice) = (p = NilSlice))"

text \<open>
  A value of a payload type survives its own encoding: decoding the JSON value it is
  encoded to, into a zero value, gives it back.
\<close>

definition roundTrips :: "'a gotype \<Rightarrow> ('a \<Rightarrow> json) \<Rightarrow> 'a \<Rightarrow> bool" where
  "roundTrips T enc x = (decodeOf T (enc x) (zeroOf T) = Some x)"

text \<open>
  A JSON value without the field \<open>n\<close>, as the decoder sees it: \<^verbatim>\<open>null\<close>, or an
  object none of whose keys is decoded into the field.
\<close>

definition lacksField :: "string \<Rightarrow> json \<Rightarrow> bool" where
  "lacksField n j =
     (case j of
        JNull \<Rightarrow> True
      | JObj kvs \<Rightarrow> list_all (\<lambda>(k, x). findField [n] k = None) kvs
      | _ \<Rightarrow> False)"

definition isObjectOrNull :: "json \<Rightarrow> bool" where
  "isObjectOrNull j = (case j of JNull \<Rightarrow> True | JObj kvs \<Rightarrow> True | _ \<Rightarrow> False)"

text \<open>
  What an endpoint makes of a success body, given the decoder \<open>decP\<close> of its payload,
  the zero value \<open>z\<close> it returns on failure and its result \<open>r\<close>: a body without the
  field \<open>payload\<close> gives the zero value and no error; and an error has one of three
  causes: the body is not a JSON text, its value is neither an object nor \<^verbatim>\<open>null\<close>, or
  a member decoded into the field \<open>payload\<close> holds a value that does not fit the payload
  type.
\<close>

definition decodesPayload ::
  "('w, 'f, 't) lib \<Rightarrow> string \<Rightarrow> (json \<Rightarrow> 'a \<Rightarrow> 'a option) \<Rightarrow> 'a \<Rightarrow> 'a \<times> err option \<Rightarrow> bool"
where
  "decodesPayload L body decP z r =
     ((\<forall>j. json_scan L body = Inr j \<and> lacksField ''payload'' j \<longrightarrow> r = (z, None)) \<and>
      (snd r \<noteq> None \<longrightarrow>
         (\<exists>m. json_scan L body = Inl m) \<or>
         (\<exists>j. json_scan L body = Inr j \<and> \<not> isObjectOrNull j) \<or>
         (\<exists>kvs k x v. json_scan L body = Inr (JObj kvs) \<and> (k, x) \<in> set kvs \<and>
            findField [''payload''] k = Some ''payload'' \<and> decP x v = None)))"



section \<open>Facts about the model\<close>

lemmas scan_defs = scanJSON_def finish_def startValue_def closeArr_def closeObj_def afterValue_def
  plainChar_def isSpace_def isDigit_def isLetter_def atomValue_def validNumber_def validFrac_def
  validExp_def

lemmas test_defs = testLib_def testClient_def ordersRequest_def test_NewRequest_URL_def
  parseURL_def NewTradingClientCustom_def TradingApiURL_def test_Do_def asciiLower_def

lemma SearchInstrumentByFIGI_call:
  "SearchInstrumentByFIGI L T c figi s =
     call L c ''GET'' (apiURL c @ ''/market/search/by-figi?figi='' @ figi) None
       (decodeStruct (\<lambda>n. decodeOf T) [''payload'']) (zeroOf T) s"
  unfolding SearchInstrumentByFIGI_def call_def Let_def by (rule refl)

lemma instruments_call:
  "instruments L T c path s =
     call L c ''GET'' path None
       (decodeStruct (\<lambda>n. decodeStruct (\<lambda>n. decodeSlice (decodeOf T) (zeroOf T)) [''instruments''])
          [''payload'']) NilSlice s"
  unfolding instruments_def call_def Let_def by (rule refl)

lemma Operations_call:
  "Operations L T c from interval figi s =
     call L c ''GET''
       (apiURL c @ ''/operations?'' @
        (if figi \<noteq> [] then ''figi='' @ url_QueryEscape L figi @ ''&'' else []) @
        ''from='' @ url_QueryEscape L (time_Format_RFC3339 L from) @
        ''&interval='' @ url_QueryEscape L interval) None
       (decodeStruct (\<lambda>n. decodeSlice (decodeOf T) (zeroOf T)) [''payload'']) NilSlice s"
  unfolding Operations_def call_def Let_def by (rule refl)

lemma PositionsPortfolio_call:
  "PositionsPortfolio L T c s =
     call L c ''GET'' (apiURL c @ ''/portfolio'') None
       (decodeStruct (\<lambda>n. decodeStruct (\<lambda>n. decodeSlice (decodeOf T) (zeroOf T)) [''positions''])
          [''payload'']) NilSlice s"
  unfolding PositionsPortfolio_def call_def Let_def by (rule refl)

lemma CurrenciesPortfolio_call:
  "CurrenciesPortfolio L T c s =
     call L c ''GET'' (apiURL c @ ''/portfolio/currencies'') None
       (decodeStruct (\<lambda>n. decodeStruct (\<lambda>n. decodeSlice (decodeOf T) (zeroOf T)) [''currencies''])
          [''payload'']) NilSlice s"
  unfolding CurrenciesPortfolio_def call_def Let_def by (rule refl)

lemma Orders_call:
  "Orders L T c s =
     call L c ''GET'' (apiURL c @ ''/orders'') None
       (decodeStruct (\<lambda>n. decodeSlice (decodeOf T) (zeroOf T)) [''payload'']) NilSlice s"
  unfolding Orders_def call_def Let_def by (rule refl)

lemma LimitOrder_call:
  assumes "json_Marshal_float L price = Some priceText"
  shows "LimitOrder L T c figi lots operation price s =
     call L c ''POST'' (apiURL c @ ''/orders/limit-order?figi='' @ figi)
       (Some (''{\"lots\":'' @ showInt lots @ '',\"operation\":'' @ json_Marshal_string L operation @
              '',\"price\":'' @ priceText @ ''}''))
       (decodeStruct (\<lambda>n. decodeOf T) [''payload'']) (zeroOf T) s"
  by (simp only: LimitOrder_def call_def Let_def assms option.case)

lemma doRequest_sent:
  "snd (doRequest L c req (w, sent)) = (snd (http_Do L (httpClient_Timeout c) req w), sent @ [req])"
  by (simp add: doRequest_def Let_def split: prod.splits outcome.splits sum.splits)

lemma doRequest_Response:
  assumes "http_Do L (httpClient_Timeout c) req w = (Response code body, w')"
  shows "doRequest L c req (w, sent) =
     (if code = 200 then ((Some body, None), (w', sent @ [req]))
      else if code = 404 then ((None, Some ErrNotFound), (w', sent @ [req]))
      else
        (case json_Unmarshal L decodeTradingError body zeroTradingError of
           Inr tradingError \<Rightarrow> ((None, Some (ETradingError tradingError)), (w', sent @ [req]))
         | Inl e \<Rightarrow>
             ((None, Some (Errorf (''bad response to '' @ RawPath (URL req) @
                                   '' code='' @ showInt code @ '', body='' @ body))),
              (w', sent @ [req]))))"
  using assms by (simp add: doRequest_def Let_def)

lemma call_Response_200:
  assumes "newRequest L c method path b = Inr req"
    and "http_Do L (httpClient_Timeout c) req w = (Response 200 body, w')"
  shows "call L c method path b dec z (w, sent) =
     (case json_Unmarshal L dec body z of
        Inl e \<Rightarrow>
          ((z, Some (Wrapf e (''can't unmarshal response to '' @ path @ '', respBody='' @ body))),
           (w', sent @ [req]))
      | Inr r \<Rightarrow> ((r, None), (w', sent @ [req])))"
  using assms(1) doRequest_Response [OF assms(2), of sent]
  by (simp add: call_def split: sum.splits)

lemma newRequest_authorized:
  assumes "newRequest L c method u body = Inr req"
  shows "authorized c req"
  using assms by (auto simp: newRequest_def authorized_def split: option.splits)

lemma newRequest_Inr:
  assumes "http_NewRequest_URL L method u = Some parsed"
  shows "newRequest L c method u body =
     Inr \<lparr>Method = (if method = [] then ''GET'' else method), URL = parsed,
          Header = [(''Content-Type'', [''application/json'']),
                    (''Authorization'', [''Bearer '' @ token c])],
          Body = body\<rparr>"
  using assms by (simp add: newRequest_def)

lemma sends_authorized_refl: "sends_authorized c s s"
  by (simp add: sends_authorized_def)

lemma sends_authorized_trans:
  "sends_authorized c s s' \<Longrightarrow> sends_authorized c s' s'' \<Longrightarrow> sends_authorized c s s''"
  by (auto simp: sends_authorized_def)

lemma doRequest_sends:
  assumes "authorized c req"
  shows "sends_authorized c s (snd (doRequest L c req s))"
  using assms by (cases s) (simp add: doRequest_sent sends_authorized_def)

lemma call_sends: "sends_authorized c s (snd (call L c method path b dec z s))"
proof (cases "newRequest L c method path b")
  case (Inl e)
  then show ?thesis by (simp add: call_def sends_authorized_refl)
next
  case (Inr req)
  have "snd (call L c method path b dec z s) = snd (doRequest L c req s)"
    using Inr by (simp add: call_def split: prod.splits option.splits sum.splits)
  then show ?thesis
    using doRequest_sends [OF newRequest_authorized [OF Inr]] by simp
qed

lemma postJSONThrow_sends: "sends_authorized c s (snd (postJSONThrow L c u body s))"
proof -
  have *: "sends_authorized c s (snd (case newRequest L c ''POST'' u (Some bb) of
             Inl e \<Rightarrow> (Some e, s)
           | Inr req \<Rightarrow> (case doRequest L c req s of ((respBody, e), s') \<Rightarrow> (e, s'))))" for bb
  proof (cases "newRequest L c ''POST'' u (Some bb)")
    case (Inl e)
    then show ?thesis by (simp add: sends_authorized_refl)
  next
    case (Inr req)
    then show ?thesis
      using doRequest_sends [OF newRequest_authorized [OF Inr], of s L]
      by (auto split: prod.splits)
  qed
  show ?thesis
    unfolding postJSONThrow_def
    by (auto simp: sends_authorized_refl * split: option.splits prod.splits)
qed

section \<open>The claims\<close>

text \<open>
  C1. A response with status 404 makes \<open>doRequest\<close> return the sentinel
  \<open>ErrNotFound\<close> and no body, whatever the body is and whatever the JSON scanner would
  make of it: the result is the same under every scanner, so the body is not parsed.
\<close>

theorem doRequest_404_ErrNotFound:
  assumes "http_Do L (httpClient_Timeout c) req w = (Response 404 body, w')"
  shows "doRequest (L\<lparr>json_scan := scan, json_typeError := msg\<rparr>) c req (w, sent) =
           ((None, Some ErrNotFound), (w', sent @ [req]))"
  using assms by (simp add: doRequest_def)

theorem doRequest_404_ErrNotFound_witness:
  "http_Do testLib (httpClient_Timeout testClient) ordersRequest
       [Response 404 ''{\"trackingId\":\"x\"}''] =
     (Response 404 ''{\"trackingId\":\"x\"}'', []) \<and>
   doRequest (testLib\<lparr>json_scan := (\<lambda>d. Inr JNull), json_typeError := (\<lambda>d. [])\<rparr>) testClient
       ordersRequest ([Response 404 ''{\"trackingId\":\"x\"}''], []) =
     ((None, Some ErrNotFound), ([], [ordersRequest]))"
proof -
  have h: "http_Do testLib (httpClient_Timeout testClient) ordersRequest
       [Response 404 ''{\"trackingId\":\"x\"}''] = (Response 404 ''{\"trackingId\":\"x\"}'', [])"
    by (simp add: testLib_def test_Do_def)
  show ?thesis
    using h doRequest_404_ErrNotFound [OF h, where scan = "\<lambda>d. Inr JNull" and msg = "\<lambda>d. []" and sent = "[]"] by simp
qed

text \<open>
  C5. \<open>doRequest\<close> returns exactly one of a body and an error: with an error the body is
  nil, with a body the error is nil, and it never returns neither.
\<close>

theorem doRequest_body_xor_error:
  assumes "doRequest L c req s = ((b, e), s')"
  shows "(e \<noteq> None \<longrightarrow> b = None) \<and> (b \<noteq> None \<longrightarrow> e = None) \<and> (b = None \<longleftrightarrow> e \<noteq> None)"
  using assms
  by (cases s) (auto simp: doRequest_def Let_def split: prod.splits outcome.splits if_splits sum.splits)

theorem doRequest_body_xor_error_witness:
  "doRequest testLib testClient ordersRequest ([Response 500 ''<html>''], []) =
     ((None, Some (Errorf ''bad response to  code=500, body=<html>'')), ([], [ordersRequest])) \<and>
   ((None :: string option) = None \<longleftrightarrow>
      Some (Errorf ''bad response to  code=500, body=<html>'') \<noteq> None)"
proof -
  have h: "doRequest testLib testClient ordersRequest ([Response 500 ''<html>''], []) =
     ((None, Some (Errorf ''bad response to  code=500, body=<html>'')), ([], [ordersRequest]))"
    by (simp add: doRequest_def test_defs json_Unmarshal_def scan_defs showInt_def digits.simps)
  show ?thesis
    using h doRequest_body_xor_error [OF h] by simp
qed

text \<open>
  C3. A response whose status is neither 200 nor 404 and whose body \<^verbatim>\<open>json.Unmarshal\<close>
  cannot decode into a \<open>TradingError\<close> makes \<open>doRequest\<close> return a generic error,
  whose message contains the status code in decimal and the body as it arrived.
\<close>

theorem doRequest_generic_error:
  assumes "http_Do L (httpClient_Timeout c) req w = (Response code body, w')"
    and "code \<noteq> 200" and "code \<noteq> 404"
    and "json_Unmarshal L decodeTradingError body zeroTradingError = Inl cause"
  shows "\<exists>m. doRequest L c req (w, sent) = ((None, Some (Errorf m)), (w', sent @ [req])) \<and>
             m = ''bad response to '' @ RawPath (URL req) @ '' code='' @ showInt code @
                 '', body='' @ body \<and>
             sublist (showInt code) (Error (Errorf m)) \<and> sublist body (Error (Errorf m))"
proof -
  let ?m = "''bad response to '' @ RawPath (URL req) @ '' code='' @ showInt code @ '', body='' @ body"
  have "doRequest L c req (w, sent) = ((None, Some (Errorf ?m)), (w', sent @ [req]))"
    using assms by (simp add: doRequest_Response)
  moreover have "sublist (showInt code) ?m"
    unfolding sublist_def
    by (rule exI [of _ "''bad response to '' @ RawPath (URL req) @ '' code=''"],
        rule exI [of _ "'', body='' @ body"]) simp
  moreover have "sublist body ?m"
    unfolding sublist_def
    by (rule exI [of _ "''bad response to '' @ RawPath (URL req) @ '' code='' @ showInt code @ '', body=''"],
        rule exI [of _ "[]"]) simp
  ultimately show ?thesis by simp
qed

theorem doRequest_generic_error_witness:
  "http_Do testLib (httpClient_Timeout testClient) ordersRequest [Response 502 ''<html>Bad Gateway</html>''] =
     (Response 502 ''<html>Bad Gateway</html>'', []) \<and>
   json_Unmarshal testLib decodeTradingError ''<html>Bad Gateway</html>'' zeroTradingError =
     Inl (LibError ''invalid JSON'') \<and>
   doRequest testLib testClient ordersRequest ([Response 502 ''<html>Bad Gateway</html>''], []) =
     ((None, Some (Errorf ''bad response to  code=502, body=<html>Bad Gateway</html>'')),
      ([], [ordersRequest])) \<and>
   sublist ''502'' ''bad response to  code=502, body=<html>Bad Gateway</html>'' \<and>
   sublist ''<html>Bad Gateway</html>'' ''bad response to  code=502, body=<html>Bad Gateway</html>''"
proof -
  have h1: "http_Do testLib (httpClient_Timeout testClient) ordersRequest
              [Response 502 ''<html>Bad Gateway</html>''] =
            (Response 502 ''<html>Bad Gateway</html>'', [])"
    by (simp add: testLib_def test_Do_def)
  have h2: "json_Unmarshal testLib decodeTradingError ''<html>Bad Gateway</html>'' zeroTradingError =
              Inl (LibError ''invalid JSON'')"
    by (simp add: json_Unmarshal_def testLib_def scan_defs)
  have h3: "(502 :: int) \<noteq> 200" "(502 :: int) \<noteq> 404" by simp_all
  have s: "showInt 502 = ''502''"
    by (simp add: showInt_def digits.simps)
  have r: "RawPath (URL ordersRequest) = []"
    by (simp add: ordersRequest_def)
  show ?thesis
    using h1 h2 doRequest_generic_error [OF h1 h3 h2, of "[]"]
    by (simp add: s r)
qed

text \<open>
  C4. A request \<open>newRequest\<close> produces carries \<open>Authorization: Bearer <token>\<close> and
  \<open>Content-Type: application/json\<close>, whatever the method, URL and body; and every
  request an endpoint hands to the transport is such a request.
\<close>

theorem newRequest_headers:
  shows "(newRequest L c verb u body = Inr req \<longrightarrow>
            map_of (Header req) ''Authorization'' = Some [''Bearer '' @ token c] \<and>
            map_of (Header req) ''Content-Type'' = Some [''application/json''] \<and>
            Header_Get (Header req) ''Authorization'' = ''Bearer '' @ token c \<and>
            Header_Get (Header req) ''Content-Type'' = ''application/json'') \<and>
         sends_authorized c s (snd (SearchInstrumentByFIGI L Instrument c figi s)) \<and>
         sends_authorized c s (snd (instruments L Instrument c path s)) \<and>
         sends_authorized c s (snd (SearchInstrumentByTicker L Instrument c ticker s)) \<and>
         sends_authorized c s (snd (Currencies_endpoint L Instrument c s)) \<and>
         sends_authorized c s (snd (ETFs L Instrument c s)) \<and>
         sends_authorized c s (snd (Bonds L Instrument c s)) \<and>
         sends_authorized c s (snd (Stocks L Instrument c s)) \<and>
         sends_authorized c s (snd (Operations L Operation c from interval figi s)) \<and>
         sends_authorized c s (snd (PositionsPortfolio L PositionBalance c s)) \<and>
         sends_authorized c s (snd (CurrenciesPortfolio L CurrencyBalance c s)) \<and>
         sends_authorized c s (snd (Portfolio_endpoint L PositionBalance CurrencyBalance c s)) \<and>
         sends_authorized c s (snd (postJSONThrow L c u jsonBody s)) \<and>
         sends_authorized c s (snd (OrderCancel L c ident s)) \<and>
         sends_authorized c s (snd (LimitOrder L PlacedLimitOrder c figi lots operation price s)) \<and>
         sends_authorized c s (snd (Orders L Order c s))"
proof -
  have a: "newRequest L c verb u body = Inr req \<longrightarrow>
            map_of (Header req) ''Authorization'' = Some [''Bearer '' @ token c] \<and>
            map_of (Header req) ''Content-Type'' = Some [''application/json''] \<and>
            Header_Get (Header req) ''Authorization'' = ''Bearer '' @ token c \<and>
            Header_Get (Header req) ''Content-Type'' = ''application/json''"
    by (auto simp: newRequest_def Header_Get_def split: option.splits)
  have i: "sends_authorized c s (snd (instruments L Instrument c p s))" for p
    by (simp add: instruments_call call_sends)
  have pp: "sends_authorized c s0 (snd (PositionsPortfolio L PositionBalance c s0))" for s0
    by (simp add: PositionsPortfolio_call call_sends)
  have cp: "sends_authorized c s0 (snd (CurrenciesPortfolio L CurrencyBalance c s0))" for s0
    by (simp add: CurrenciesPortfolio_call call_sends)
  have pf: "sends_authorized c s (snd (Portfolio_endpoint L PositionBalance CurrencyBalance c s))"
  proof -
    obtain r s1 where p1: "PositionsPortfolio L PositionBalance c s = (r, s1)"
      by (cases "PositionsPortfolio L PositionBalance c s")
    obtain positions e where r: "r = (positions, e)" by (cases r)
    have s1: "sends_authorized c s s1" using pp [of s] p1 by simp
    show ?thesis
    proof (cases e)
      case (Some x)
      then show ?thesis using s1 p1 r by (simp add: Portfolio_endpoint_def)
    next
      case None
      obtain r2 s2 where p2: "CurrenciesPortfolio L CurrencyBalance c s1 = (r2, s2)"
        by (cases "CurrenciesPortfolio L CurrencyBalance c s1")
      have "sends_authorized c s1 s2" using cp [of s1] p2 by simp
      then have "sends_authorized c s s2" using s1 sends_authorized_trans by blast
      then show ?thesis
        using p1 r None p2 by (cases r2) (auto simp: Portfolio_endpoint_def split: option.splits)
    qed
  qed
  have lo: "sends_authorized c s (snd (LimitOrder L PlacedLimitOrder c figi lots operation price s))"
  proof (cases "json_Marshal_float L price")
    case None
    then show ?thesis by (simp add: LimitOrder_def sends_authorized_refl)
  next
    case (Some a)
    then show ?thesis by (simp add: LimitOrder_call call_sends)
  qed
  show ?thesis
    using a i pf lo
    by (simp add: SearchInstrumentByFIGI_call SearchInstrumentByTicker_def Currencies_endpoint_def
        ETFs_def Bonds_def Stocks_def Operations_call PositionsPortfolio_call
        CurrenciesPortfolio_call Orders_call OrderCancel_def call_sends postJSONThrow_sends)
qed

theorem newRequest_headers_witness:
  "newRequest testLib testClient ''GET'' (apiURL testClient @ ''/orders'') None = Inr ordersRequest \<and>
   map_of (Header ordersRequest) ''Authorization'' = Some [''Bearer t0ken''] \<and>
   map_of (Header ordersRequest) ''Content-Type'' = Some [''application/json''] \<and>
   Header_Get (Header ordersRequest) ''Authorization'' = ''Bearer t0ken'' \<and>
   Header_Get (Header ordersRequest) ''Content-Type'' = ''application/json'' \<and>
   sends_authorized testClient ([Response 200 ''{}''], [])
     (snd (Orders testLib stringType testClient ([Response 200 ''{}''], [])))"
proof -
  have h: "newRequest testLib testClient ''GET'' (apiURL testClient @ ''/orders'') None = Inr ordersRequest"
    by (simp add: newRequest_def test_defs isLetter_def isDigit_def)
  have t: "token testClient = ''t0ken''"
    by (simp add: testClient_def NewTradingClientCustom_def)
  note a = newRequest_headers [where L = testLib and c = testClient and verb = "''GET''"
        and u = "apiURL testClient @ ''/orders''" and body = None and req = ordersRequest
        and s = "([Response 200 ''{}''], [])" and Order = stringType]
  have p1: "map_of (Header ordersRequest) ''Authorization'' = Some [''Bearer t0ken''] \<and>
   map_of (Header ordersRequest) ''Content-Type'' = Some [''application/json''] \<and>
   Header_Get (Header ordersRequest) ''Authorization'' = ''Bearer t0ken'' \<and>
   Header_Get (Header ordersRequest) ''Content-Type'' = ''application/json''"
    using h a [THEN conjunct1] by (simp add: t)
  have p2: "sends_authorized testClient ([Response 200 ''{}''], [])
     (snd (Orders testLib stringType testClient ([Response 200 ''{}''], [])))"
    using a by blast
  show ?thesis
    using h p1 p2 by simp
qed

subsection \<open>Decoding the error envelope\<close>

lemma findField_exact: "k \<in> set names \<Longrightarrow> findField names k = Some k"
  by (simp add: findField_def)

lemma setTradingErrorPayload_JStr:
  "setTradingErrorPayload ''message'' (JStr s) p = Some (p\<lparr>Message := s\<rparr>)"
  "setTradingErrorPayload ''code'' (JStr s) p = Some (p\<lparr>Code := s\<rparr>)"
  by (simp_all add: setTradingErrorPayload_def decodeString_def)

lemma decodeMembers_TradingErrorPayload:
  assumes "distinct (map fst kvs)"
    and "\<forall>(k, x) \<in> set kvs. (k = ''message'' \<or> k = ''code'') \<and> (\<exists>s. x = JStr s)"
  shows "decodeMembers setTradingErrorPayload [''message'', ''code''] kvs p =
     Some \<lparr>Message = (case map_of kvs ''message'' of Some (JStr s) \<Rightarrow> s | _ \<Rightarrow> Message p),
           Code = (case map_of kvs ''code'' of Some (JStr s) \<Rightarrow> s | _ \<Rightarrow> Code p)\<rparr>"
  using assms
proof (induction kvs arbitrary: p)
  case Nil
  then show ?case by simp
next
  case (Cons kx kvs)
  obtain k x where kx: "kx = (k, x)" by (cases kx)
  from Cons.prems kx obtain s where x: "x = JStr s" and k: "k = ''message'' \<or> k = ''code''"
    by auto
  have nk: "map_of kvs k = None"
    using Cons.prems(1) kx by (simp add: map_of_eq_None_iff)
  have ih: "decodeMembers setTradingErrorPayload [''message'', ''code''] kvs q =
     Some \<lparr>Message = (case map_of kvs ''message'' of Some (JStr s) \<Rightarrow> s | _ \<Rightarrow> Message q),
           Code = (case map_of kvs ''code'' of Some (JStr s) \<Rightarrow> s | _ \<Rightarrow> Code q)\<rparr>" for q
    using Cons.IH [of q] Cons.prems by simp
  from k show ?case
  proof
    assume "k = ''message''"
    then show ?thesis
      using nk
      by (simp add: kx x findField_exact setTradingErrorPayload_JStr ih
          split: option.splits json.splits)
  next
    assume "k = ''code''"
    then show ?thesis
      using nk
      by (simp add: kx x findField_exact setTradingErrorPayload_JStr ih
          split: option.splits json.splits)
  qed
qed

lemma setTradingError_fields:
  "setTradingError ''trackingId'' (JStr s) t = Some (t\<lparr>TrackingID := s\<rparr>)"
  "setTradingError ''status'' (JStr s) t = Some (t\<lparr>Status := s\<rparr>)"
  "setTradingError ''payload'' x t =
     map_option (\<lambda>p. t\<lparr>Payload := p\<rparr>) (decodeTradingErrorPayload x (Payload t))"
  by (simp_all add: setTradingError_def decodeString_def)

lemma decodeMembers_TradingError:
  assumes "distinct (map fst kvs)"
    and "\<forall>(k, x) \<in> set kvs.
           (k = ''trackingId'' \<and> (\<exists>s. x = JStr s)) \<or>
           (k = ''status'' \<and> (\<exists>s. x = JStr s)) \<or>
           (k = ''payload'' \<and>
            (\<exists>pkvs. x = JObj pkvs \<and> distinct (map fst pkvs) \<and>
               (\<forall>(k, x) \<in> set pkvs. (k = ''message'' \<or> k = ''code'') \<and> (\<exists>s. x = JStr s))))"
  shows "decodeMembers setTradingError [''trackingId'', ''status'', ''payload''] kvs t =
     Some \<lparr>TrackingID = (case map_of kvs ''trackingId'' of Some (JStr s) \<Rightarrow> s | _ \<Rightarrow> TrackingID t),
           Status = (case map_of kvs ''status'' of Some (JStr s) \<Rightarrow> s | _ \<Rightarrow> Status t),
           Payload =
             (case map_of kvs ''payload'' of
                Some (JObj pkvs) \<Rightarrow>
                  \<lparr>Message = (case map_of pkvs ''message'' of Some (JStr s) \<Rightarrow> s
                               | _ \<Rightarrow> Message (Payload t)),
                   Code = (case map_of pkvs ''code'' of Some (JStr s) \<Rightarrow> s
                            | _ \<Rightarrow> Code (Payload t))\<rparr>
              | _ \<Rightarrow> Payload t)\<rparr>"
  using assms
proof (induction kvs arbitrary: t)
  case Nil
  then show ?case by simp
next
  case (Cons kx kvs)
  obtain k x where kx: "kx = (k, x)" by (cases kx)
  have nk: "map_of kvs k = None"
    using Cons.prems(1) kx by (simp add: map_of_eq_None_iff)
  have ih: "decodeMembers setTradingError [''trackingId'', ''status'', ''payload''] kvs q =
     Some \<lparr>TrackingID = (case map_of kvs ''trackingId'' of Some (JStr s) \<Rightarrow> s | _ \<Rightarrow> TrackingID q),
           Status = (case map_of kvs ''status'' of Some (JStr s) \<Rightarrow> s | _ \<Rightarrow> Status q),
           Payload =
             (case map_of kvs ''payload'' of
                Some (JObj pkvs) \<Rightarrow>
                  \<lparr>Message = (case map_of pkvs ''message'' of Some (JStr s) \<Rightarrow> s
                               | _ \<Rightarrow> Message (Payload q)),
                   Code = (case map_of pkvs ''code'' of Some (JStr s) \<Rightarrow> s
                            | _ \<Rightarrow> Code (Payload q))\<rparr>
              | _ \<Rightarrow> Payload q)\<rparr>" for q
    using Cons.IH [of q] Cons.prems by simp
  from Cons.prems(2) kx consider
      (tr) s where "k = ''trackingId''" "x = JStr s"
    | (st) s where "k = ''status''" "x = JStr s"
    | (pl) pkvs where "k = ''payload''" "x = JObj pkvs" "distinct (map fst pkvs)"
        "\<forall>(k, x) \<in> set pkvs. (k = ''message'' \<or> k = ''code'') \<and> (\<exists>s. x = JStr s)"
    by auto
  then show ?case
  proof cases
    case tr
    then show ?thesis
      using nk
      by (simp add: kx findField_exact setTradingError_fields ih cong: option.case_cong json.case_cong)
  next
    case st
    then show ?thesis
      using nk
      by (simp add: kx findField_exact setTradingError_fields ih cong: option.case_cong json.case_cong)
  next
    case pl
    have "decodeTradingErrorPayload (JObj pkvs) (Payload t) =
       Some \<lparr>Message = (case map_of pkvs ''message'' of Some (JStr s) \<Rightarrow> s
                         | _ \<Rightarrow> Message (Payload t)),
             Code = (case map_of pkvs ''code'' of Some (JStr s) \<Rightarrow> s | _ \<Rightarrow> Code (Payload t))\<rparr>"
      using decodeMembers_TradingErrorPayload [OF pl(3,4)]
      by (simp add: decodeTradingErrorPayload_def decodeStruct_def)
    then show ?thesis
      using nk pl(1,2)
      by (simp add: kx findField_exact setTradingError_fields ih cong: option.case_cong json.case_cong)
  qed
qed

lemma decodeTradingError_envelope:
  assumes "errorEnvelope j t st m cd"
  shows "decodeTradingError j v =
           Some \<lparr>TrackingID = t, Status = st, Payload = \<lparr>Message = m, Code = cd\<rparr>\<rparr>"
proof -
  from assms obtain kvs where j: "j = JObj kvs"
    by (cases j) (simp_all add: errorEnvelope_def)
  from assms have e: "distinct (map fst kvs) \<and>
          set (map fst kvs) = {''trackingId'', ''status'', ''payload''} \<and>
          map_of kvs ''trackingId'' = Some (JStr t) \<and>
          map_of kvs ''status'' = Some (JStr st) \<and>
          (case map_of kvs ''payload'' of
             Some (JObj pkvs) \<Rightarrow>
               distinct (map fst pkvs) \<and>
               set (map fst pkvs) = {''message'', ''code''} \<and>
               map_of pkvs ''message'' = Some (JStr m) \<and>
               map_of pkvs ''code'' = Some (JStr cd)
           | _ \<Rightarrow> False)"
    unfolding errorEnvelope_def j json.case by assumption
  then have d: "distinct (map fst kvs)"
    and ks: "set (map fst kvs) = {''trackingId'', ''status'', ''payload''}"
    and mt: "map_of kvs ''trackingId'' = Some (JStr t)"
    and ms: "map_of kvs ''status'' = Some (JStr st)"
    by blast+
  from e have e2: "case map_of kvs ''payload'' of
             Some (JObj pkvs) \<Rightarrow>
               distinct (map fst pkvs) \<and>
               set (map fst pkvs) = {''message'', ''code''} \<and>
               map_of pkvs ''message'' = Some (JStr m) \<and>
               map_of pkvs ''code'' = Some (JStr cd)
           | _ \<Rightarrow> False"
    by blast
  then obtain pj where mpj: "map_of kvs ''payload'' = Some pj"
    by (cases "map_of kvs ''payload''") simp_all
  from e2 mpj obtain pkvs where pj: "pj = JObj pkvs"
    by (cases pj) simp_all
  have mp: "map_of kvs ''payload'' = Some (JObj pkvs)"
    using mpj pj by simp
  from e2 have e3: "distinct (map fst pkvs) \<and>
               set (map fst pkvs) = {''message'', ''code''} \<and>
               map_of pkvs ''message'' = Some (JStr m) \<and>
               map_of pkvs ''code'' = Some (JStr cd)"
    unfolding mp option.case json.case by assumption
  then have pd: "distinct (map fst pkvs)"
    and pks: "set (map fst pkvs) = {''message'', ''code''}"
    and mm: "map_of pkvs ''message'' = Some (JStr m)"
    and mc: "map_of pkvs ''code'' = Some (JStr cd)"
    by blast+
  have inner: "\<forall>(k, x) \<in> set pkvs. (k = ''message'' \<or> k = ''code'') \<and> (\<exists>s. x = JStr s)"
  proof -
    have "(k = ''message'' \<or> k = ''code'') \<and> (\<exists>s. x = JStr s)" if kx: "(k, x) \<in> set pkvs" for k x
    proof -
      from kx have "k \<in> set (map fst pkvs)" by force
      then have k: "k = ''message'' \<or> k = ''code''" unfolding pks by simp
      have "map_of pkvs k = Some x" using kx pd by simp
      then show ?thesis using k mm mc by auto
    qed
    then show ?thesis by blast
  qed
  have outer: "\<forall>(k, x) \<in> set kvs.
           (k = ''trackingId'' \<and> (\<exists>s. x = JStr s)) \<or>
           (k = ''status'' \<and> (\<exists>s. x = JStr s)) \<or>
           (k = ''payload'' \<and>
            (\<exists>pkvs. x = JObj pkvs \<and> distinct (map fst pkvs) \<and>
               (\<forall>(k, x) \<in> set pkvs. (k = ''message'' \<or> k = ''code'') \<and> (\<exists>s. x = JStr s))))"
  proof -
    have "(k = ''trackingId'' \<and> (\<exists>s. x = JStr s)) \<or>
           (k = ''status'' \<and> (\<exists>s. x = JStr s)) \<or>
           (k = ''payload'' \<and>
            (\<exists>pkvs. x = JObj pkvs \<and> distinct (map fst pkvs) \<and>
               (\<forall>(k, x) \<in> set pkvs. (k = ''message'' \<or> k = ''code'') \<and> (\<exists>s. x = JStr s))))"
      if kx: "(k, x) \<in> set kvs" for k x
    proof -
      from kx have "k \<in> set (map fst kvs)" by force
      then have k: "k = ''trackingId'' \<or> k = ''status'' \<or> k = ''payload''" unfolding ks by simp
      have mk: "map_of kvs k = Some x" using kx d by simp
      from k consider "k = ''trackingId''" | "k = ''status''" | "k = ''payload''" by blast
      then show ?thesis
      proof cases
        case 1
        then have "x = JStr t" using mk mt by simp
        then show ?thesis using 1 by blast
      next
        case 2
        then have "x = JStr st" using mk ms by simp
        then show ?thesis using 2 by blast
      next
        case 3
        then have "x = JObj pkvs" using mk mp by simp
        then show ?thesis using 3 pd inner by blast
      qed
    qed
    then show ?thesis by blast
  qed
  show ?thesis
    using decodeMembers_TradingError [OF d outer, of v]
    by (simp add: decodeTradingError_def decodeStruct_def j mt ms mp mm mc)
qed

text \<open>
  C2. A response whose status is neither 200 nor 404 and whose body is the broker's error
  envelope makes \<open>doRequest\<close> return the \<open>TradingError\<close> with the four fields of the
  envelope, and \<open>NotEnoughBalance\<close> holds of it exactly when the code is
  \<open>NOT_ENOUGH_BALANCE\<close>.
\<close>

theorem doRequest_TradingError:
  assumes "http_Do L (httpClient_Timeout c) req w = (Response code body, w')"
    and "code \<noteq> 200" and "code \<noteq> 404"
    and "json_scan L body = Inr j"
    and "errorEnvelope j t st m cd"
  shows "doRequest L c req (w, sent) =
           ((None, Some (ETradingError \<lparr>TrackingID = t, Status = st,
                                         Payload = \<lparr>Message = m, Code = cd\<rparr>\<rparr>)),
            (w', sent @ [req])) \<and>
         (NotEnoughBalance \<lparr>TrackingID = t, Status = st, Payload = \<lparr>Message = m, Code = cd\<rparr>\<rparr>
            \<longleftrightarrow> cd = ''NOT_ENOUGH_BALANCE'')"
  using assms(2,3,4) decodeTradingError_envelope [OF assms(5), of zeroTradingError]
  by (simp add: doRequest_Response [OF assms(1)] json_Unmarshal_def NotEnoughBalance_def)

theorem doRequest_TradingError_witness:
  "http_Do testLib (httpClient_Timeout testClient) ordersRequest
     [Response 500 ''{\"status\":\"Error\",\"payload\":{\"message\":\"no money\",\"code\":\"NOT_ENOUGH_BALANCE\"},\"trackingId\":\"abc\"}''] =
     (Response 500 ''{\"status\":\"Error\",\"payload\":{\"message\":\"no money\",\"code\":\"NOT_ENOUGH_BALANCE\"},\"trackingId\":\"abc\"}'', []) \<and>
   json_scan testLib ''{\"status\":\"Error\",\"payload\":{\"message\":\"no money\",\"code\":\"NOT_ENOUGH_BALANCE\"},\"trackingId\":\"abc\"}'' =
     Inr (JObj [(''status'', JStr ''Error''),
                (''payload'', JObj [(''message'', JStr ''no money''), (''code'', JStr ''NOT_ENOUGH_BALANCE'')]),
                (''trackingId'', JStr ''abc'')]) \<and>
   errorEnvelope
     (JObj [(''status'', JStr ''Error''),
            (''payload'', JObj [(''message'', JStr ''no money''), (''code'', JStr ''NOT_ENOUGH_BALANCE'')]),
            (''trackingId'', JStr ''abc'')])
     ''abc'' ''Error'' ''no money'' ''NOT_ENOUGH_BALANCE'' \<and>
   doRequest testLib testClient ordersRequest
     ([Response 500 ''{\"status\":\"Error\",\"payload\":{\"message\":\"no money\",\"code\":\"NOT_ENOUGH_BALANCE\"},\"trackingId\":\"abc\"}''], []) =
     ((None, Some (ETradingError \<lparr>TrackingID = ''abc'', Status = ''Error'',
                                   Payload = \<lparr>Message = ''no money'', Code = ''NOT_ENOUGH_BALANCE''\<rparr>\<rparr>)),
      ([], [ordersRequest])) \<and>
   NotEnoughBalance \<lparr>TrackingID = ''abc'', Status = ''Error'',
                     Payload = \<lparr>Message = ''no money'', Code = ''NOT_ENOUGH_BALANCE''\<rparr>\<rparr>"
proof -
  let ?body = "''{\"status\":\"Error\",\"payload\":{\"message\":\"no money\",\"code\":\"NOT_ENOUGH_BALANCE\"},\"trackingId\":\"abc\"}''"
  let ?j = "JObj [(''status'', JStr ''Error''),
            (''payload'', JObj [(''message'', JStr ''no money''), (''code'', JStr ''NOT_ENOUGH_BALANCE'')]),
            (''trackingId'', JStr ''abc'')]"
  have h1: "http_Do testLib (httpClient_Timeout testClient) ordersRequest [Response 500 ?body] =
              (Response 500 ?body, [])"
    by (simp add: testLib_def test_Do_def)
  have h2: "(500 :: int) \<noteq> 200" "(500 :: int) \<noteq> 404" by simp_all
  have h3: "json_scan testLib ?body = Inr ?j"
    by (simp add: testLib_def scan_defs)
  have h4: "errorEnvelope ?j ''abc'' ''Error'' ''no money'' ''NOT_ENOUGH_BALANCE''"
    by (auto simp: errorEnvelope_def)
  show ?thesis
    using h1 h3 h4 doRequest_TradingError [OF h1 h2 h3 h4, of "[]"]
    by simp
qed

subsection \<open>Decoding an encoded payload\<close>

lemma decodeStruct_single: "decodeStruct setField [n] (JObj [(n, x)]) v = setField n x v"
  by (simp add: decodeStruct_def findField_def split: option.splits)

lemma decodeElements_roundTrips:
  assumes "\<forall>x \<in> set xs. dec (enc x) z = Some x"
  shows "decodeElements dec z (map enc xs) [] = Some xs"
  using assms by (induction xs) simp_all

lemma decodeSlice_encodeSlice:
  assumes "\<forall>x \<in> set (elems p). roundTrips T enc x"
  shows "\<exists>r. decodeSlice (decodeOf T) (zeroOf T) (encodeSlice enc p) NilSlice = Some r \<and> sameSlice r p"
proof (cases p)
  case NilSlice
  then show ?thesis by (simp add: decodeSlice_def encodeSlice_def sameSlice_def)
next
  case (Slice xs sp)
  have "decodeElements (decodeOf T) (zeroOf T) (map enc xs) [] = Some xs"
    using assms Slice by (intro decodeElements_roundTrips) (simp add: roundTrips_def)
  then show ?thesis
    using Slice by (simp add: decodeSlice_def encodeSlice_def sameSlice_def)
qed

lemma call_200_scanned:
  assumes "answers_200 L c verb path reqBody body w w'"
    and "json_scan L body = Inr j"
    and "dec j z = Some r"
  shows "fst (call L c verb path reqBody dec z (w, sent)) = (r, None)"
proof -
  from assms(1) obtain req where "newRequest L c verb path reqBody = Inr req"
    and "http_Do L (httpClient_Timeout c) req w = (Response 200 body, w')"
    by (auto simp: answers_200_def split: sum.splits)
  then show ?thesis
    using assms(2,3) by (simp add: call_Response_200 json_Unmarshal_def)
qed

lemma call_200_payload:
  assumes "answers_200 L c verb path reqBody body w w'"
    and "json_scan L body = Inr (JObj [(''payload'', j)])"
    and "decP j z = Some r"
  shows "fst (call L c verb path reqBody (decodeStruct (\<lambda>n. decP) [''payload'']) z (w, sent)) = (r, None)"
  using call_200_scanned [OF assms(1,2), of "decodeStruct (\<lambda>n. decP) [''payload'']" z r sent] assms(3)
  by (simp add: decodeStruct_single)

lemma call_200_slice:
  assumes "answers_200 L c verb path reqBody body w w'"
    and "json_scan L body = Inr (JObj [(''payload'', encodeSlice enc p)])"
    and "\<forall>x \<in> set (elems p). roundTrips T enc x"
  shows "\<exists>r. fst (call L c verb path reqBody
                   (decodeStruct (\<lambda>n. decodeSlice (decodeOf T) (zeroOf T)) [''payload''])
                   NilSlice (w, sent)) = (r, None) \<and> sameSlice r p"
proof -
  from decodeSlice_encodeSlice [OF assms(3)] obtain r
    where r: "decodeSlice (decodeOf T) (zeroOf T) (encodeSlice enc p) NilSlice = Some r"
      and s: "sameSlice r p"
    by blast
  show ?thesis
    using call_200_payload
      [where decP = "decodeSlice (decodeOf T) (zeroOf T)" and z = NilSlice and r = r
         and sent = sent, OF assms(1,2) r] s
    by blast
qed

lemma call_200_named_slice:
  assumes "answers_200 L c verb path reqBody body w w'"
    and "json_scan L body = Inr (JObj [(''payload'', JObj [(name, encodeSlice enc p)])])"
    and "\<forall>x \<in> set (elems p). roundTrips T enc x"
  shows "\<exists>r. fst (call L c verb path reqBody
                   (decodeStruct
                      (\<lambda>n. decodeStruct (\<lambda>n. decodeSlice (decodeOf T) (zeroOf T)) [name])
                      [''payload''])
                   NilSlice (w, sent)) = (r, None) \<and> sameSlice r p"
proof -
  from decodeSlice_encodeSlice [OF assms(3)] obtain r
    where r: "decodeSlice (decodeOf T) (zeroOf T) (encodeSlice enc p) NilSlice = Some r"
      and s: "sameSlice r p"
    by blast
  have n: "decodeStruct (\<lambda>n. decodeSlice (decodeOf T) (zeroOf T)) [name]
          (JObj [(name, encodeSlice enc p)]) NilSlice = Some r"
    using r by (simp add: decodeStruct_single)
  show ?thesis
    using call_200_payload
      [where decP = "decodeStruct (\<lambda>n. decodeSlice (decodeOf T) (zeroOf T)) [name]"
         and z = NilSlice and r = r and sent = sent, OF assms(1,2) n] s
    by blast
qed

text \<open>
  C6. A payload wrapped in the documented envelope is decoded to itself by the endpoint
  that expects it.
\<close>

theorem envelope_round_trip:
  "(answers_200 L c ''GET'' (apiURL c @ ''/market/search/by-figi?figi='' @ figi) None body w w' \<and>
    json_scan L body = Inr (JObj [(''payload'', enc x)]) \<and> roundTrips T enc x \<longrightarrow>
      fst (SearchInstrumentByFIGI L T c figi (w, sent)) = (x, None)) \<and>
   (answers_200 L c ''GET'' path None body w w' \<and>
    json_scan L body = Inr (JObj [(''payload'', JObj [(''instruments'', encodeSlice enc p)])]) \<and>
    (\<forall>x \<in> set (elems p). roundTrips T enc x) \<longrightarrow>
      (\<exists>r. fst (instruments L T c path (w, sent)) = (r, None) \<and> sameSlice r p)) \<and>
   (answers_200 L c ''GET''
      (apiURL c @ ''/operations?'' @
       (if figi \<noteq> [] then ''figi='' @ url_QueryEscape L figi @ ''&'' else []) @
       ''from='' @ url_QueryEscape L (time_Format_RFC3339 L from) @
       ''&interval='' @ url_QueryEscape L interval) None body w w' \<and>
    json_scan L body = Inr (JObj [(''payload'', encodeSlice enc p)]) \<and>
    (\<forall>x \<in> set (elems p). roundTrips T enc x) \<longrightarrow>
      (\<exists>r. fst (Operations L T c from interval figi (w, sent)) = (r, None) \<and> sameSlice r p)) \<and>
   (answers_200 L c ''GET'' (apiURL c @ ''/portfolio'') None body w w' \<and>
    json_scan L body = Inr (JObj [(''payload'', JObj [(''positions'', encodeSlice enc p)])]) \<and>
    (\<forall>x \<in> set (elems p). roundTrips T enc x) \<longrightarrow>
      (\<exists>r. fst (PositionsPortfolio L T c (w, sent)) = (r, None) \<and> sameSlice r p)) \<and>
   (answers_200 L c ''GET'' (apiURL c @ ''/portfolio/currencies'') None body w w' \<and>
    json_scan L body = Inr (JObj [(''payload'', JObj [(''currencies'', encodeSlice enc p)])]) \<and>
    (\<forall>x \<in> set (elems p). roundTrips T enc x) \<longrightarrow>
      (\<exists>r. fst (CurrenciesPortfolio L T c (w, sent)) = (r, None) \<and> sameSlice r p)) \<and>
   (json_Marshal_float L price = Some priceText \<and>
    answers_200 L c ''POST'' (apiURL c @ ''/orders/limit-order?figi='' @ figi)
      (Some (''{\"lots\":'' @ showInt lots @ '',\"operation\":'' @ json_Marshal_string L operation @
             '',\"price\":'' @ priceText @ ''}'')) body w w' \<and>
    json_scan L body = Inr (JObj [(''payload'', enc x)]) \<and> roundTrips T enc x \<longrightarrow>
      fst (LimitOrder L T c figi lots operation price (w, sent)) = (x, None)) \<and>
   (answers_200 L c ''GET'' (apiURL c @ ''/orders'') None body w w' \<and>
    json_scan L body = Inr (JObj [(''payload'', encodeSlice enc p)]) \<and>
    (\<forall>x \<in> set (elems p). roundTrips T enc x) \<longrightarrow>
      (\<exists>r. fst (Orders L T c (w, sent)) = (r, None) \<and> sameSlice r p))"
proof (intro conjI impI; (elim conjE)?)
  assume a: "answers_200 L c ''GET'' (apiURL c @ ''/market/search/by-figi?figi='' @ figi) None body w w'"
    and j: "json_scan L body = Inr (JObj [(''payload'', enc x)])" and "roundTrips T enc x"
  then have r: "decodeOf T (enc x) (zeroOf T) = Some x" by (simp add: roundTrips_def)
  show "fst (SearchInstrumentByFIGI L T c figi (w, sent)) = (x, None)"
    unfolding SearchInstrumentByFIGI_call
    by (rule call_200_payload [where decP = "decodeOf T", OF a j r])
next
  assume "answers_200 L c ''GET'' path None body w w'"
    and "json_scan L body = Inr (JObj [(''payload'', JObj [(''instruments'', encodeSlice enc p)])])"
    and "\<forall>x \<in> set (elems p). roundTrips T enc x"
  then show "\<exists>r. fst (instruments L T c path (w, sent)) = (r, None) \<and> sameSlice r p"
    unfolding instruments_call by (rule call_200_named_slice)
next
  assume "answers_200 L c ''GET''
      (apiURL c @ ''/operations?'' @
       (if figi \<noteq> [] then ''figi='' @ url_QueryEscape L figi @ ''&'' else []) @
       ''from='' @ url_QueryEscape L (time_Format_RFC3339 L from) @
       ''&interval='' @ url_QueryEscape L interval) None body w w'"
    and "json_scan L body = Inr (JObj [(''payload'', encodeSlice enc p)])"
    and "\<forall>x \<in> set (elems p). roundTrips T enc x"
  then show "\<exists>r. fst (Operations L T c from interval figi (w, sent)) = (r, None) \<and> sameSlice r p"
    unfolding Operations_call by (rule call_200_slice)
next
  assume "answers_200 L c ''GET'' (apiURL c @ ''/portfolio'') None body w w'"
    and "json_scan L body = Inr (JObj [(''payload'', JObj [(''positions'', encodeSlice enc p)])])"
    and "\<forall>x \<in> set (elems p). roundTrips T enc x"
  then show "\<exists>r. fst (PositionsPortfolio L T c (w, sent)) = (r, None) \<and> sameSlice r p"
    unfolding PositionsPortfolio_call by (rule call_200_named_slice)
next
  assume "answers_200 L c ''GET'' (apiURL c @ ''/portfolio/currencies'') None body w w'"
    and "json_scan L body = Inr (JObj [(''payload'', JObj [(''currencies'', encodeSlice enc p)])])"
    and "\<forall>x \<in> set (elems p). roundTrips T enc x"
  then show "\<exists>r. fst (CurrenciesPortfolio L T c (w, sent)) = (r, None) \<and> sameSlice r p"
    unfolding CurrenciesPortfolio_call by (rule call_200_named_slice)
next
  assume m: "json_Marshal_float L price = Some priceText"
    and a: "answers_200 L c ''POST'' (apiURL c @ ''/orders/limit-order?figi='' @ figi)
      (Some (''{\"lots\":'' @ showInt lots @ '',\"operation\":'' @ json_Marshal_string L operation @
             '',\"price\":'' @ priceText @ ''}'')) body w w'"
    and j: "json_scan L body = Inr (JObj [(''payload'', enc x)])" and "roundTrips T enc x"
  then have r: "decodeOf T (enc x) (zeroOf T) = Some x" by (simp add: roundTrips_def)
  show "fst (LimitOrder L T c figi lots operation price (w, sent)) = (x, None)"
    unfolding LimitOrder_call [OF m]
    by (rule call_200_payload [where decP = "decodeOf T", OF a j r])
next
  assume "answers_200 L c ''GET'' (apiURL c @ ''/orders'') None body w w'"
    and "json_scan L body = Inr (JObj [(''payload'', encodeSlice enc p)])"
    and "\<forall>x \<in> set (elems p). roundTrips T enc x"
  then show "\<exists>r. fst (Orders L T c (w, sent)) = (r, None) \<and> sameSlice r p"
    unfolding Orders_call by (rule call_200_slice)
qed

theorem envelope_round_trip_witness:
  "answers_200 testLib testClient ''GET'' (apiURL testClient @ ''/market/search/by-figi?figi='' @ ''BBG000B9XRY4'')
     None ''{\"payload\":\"AAPL\"}'' [Response 200 ''{\"payload\":\"AAPL\"}''] [] \<and>
   json_scan testLib ''{\"payload\":\"AAPL\"}'' = Inr (JObj [(''payload'', JStr ''AAPL'')]) \<and>
   roundTrips stringType JStr ''AAPL'' \<and>
   fst (SearchInstrumentByFIGI testLib stringType testClient ''BBG000B9XRY4''
          ([Response 200 ''{\"payload\":\"AAPL\"}''], [])) = (''AAPL'', None) \<and>
   answers_200 testLib testClient ''GET'' (apiURL testClient @ ''/market/stocks'')
     None ''{\"payload\":{\"instruments\":[\"AAPL\",\"MSFT\"]}}''
     [Response 200 ''{\"payload\":{\"instruments\":[\"AAPL\",\"MSFT\"]}}''] [] \<and>
   json_scan testLib ''{\"payload\":{\"instruments\":[\"AAPL\",\"MSFT\"]}}'' =
     Inr (JObj [(''payload'', JObj [(''instruments'', encodeSlice JStr (Slice [''AAPL'', ''MSFT''] []))])]) \<and>
   roundTrips stringType JStr ''MSFT'' \<and>
   (\<exists>r. fst (instruments testLib stringType testClient (apiURL testClient @ ''/market/stocks'')
               ([Response 200 ''{\"payload\":{\"instruments\":[\"AAPL\",\"MSFT\"]}}''], [])) = (r, None) \<and>
        sameSlice r (Slice [''AAPL'', ''MSFT''] []))"
proof -
  let ?b1 = "''{\"payload\":\"AAPL\"}''"
  let ?b2 = "''{\"payload\":{\"instruments\":[\"AAPL\",\"MSFT\"]}}''"
  have a1: "answers_200 testLib testClient ''GET''
              (apiURL testClient @ ''/market/search/by-figi?figi='' @ ''BBG000B9XRY4'') None ?b1
              [Response 200 ?b1] []"
    by (simp add: answers_200_def newRequest_def test_defs isLetter_def isDigit_def)
  have j1: "json_scan testLib ?b1 = Inr (JObj [(''payload'', JStr ''AAPL'')])"
    by (simp add: testLib_def scan_defs)
  have r1: "roundTrips stringType JStr ''AAPL''" and r2: "roundTrips stringType JStr ''MSFT''"
    by (simp_all add: roundTrips_def stringType_def decodeString_def)
  have a2: "answers_200 testLib testClient ''GET'' (apiURL testClient @ ''/market/stocks'') None ?b2
              [Response 200 ?b2] []"
    by (simp add: answers_200_def newRequest_def test_defs isLetter_def isDigit_def)
  have j2: "json_scan testLib ?b2 =
     Inr (JObj [(''payload'', JObj [(''instruments'', encodeSlice JStr (Slice [''AAPL'', ''MSFT''] []))])])"
    by (simp add: testLib_def scan_defs encodeSlice_def)
  have e: "\<forall>x \<in> set (elems (Slice [''AAPL'', ''MSFT''] [])). roundTrips stringType JStr x"
    using r1 r2 by simp
  note t = envelope_round_trip [where L = testLib and c = testClient and T = stringType
      and enc = JStr and sent = "[]" and w' = "[]"]
  have c1: "fst (SearchInstrumentByFIGI testLib stringType testClient ''BBG000B9XRY4''
          ([Response 200 ?b1], [])) = (''AAPL'', None)"
    using t [where figi = "''BBG000B9XRY4''" and body = ?b1 and w = "[Response 200 ?b1]"
        and x = "''AAPL''", THEN conjunct1] a1 j1 r1
    by blast
  have c2: "\<exists>r. fst (instruments testLib stringType testClient (apiURL testClient @ ''/market/stocks'')
               ([Response 200 ?b2], [])) = (r, None) \<and> sameSlice r (Slice [''AAPL'', ''MSFT''] [])"
    using t [where path = "apiURL testClient @ ''/market/stocks''" and body = ?b2
        and w = "[Response 200 ?b2]" and p = "Slice [''AAPL'', ''MSFT''] []",
        THEN conjunct2, THEN conjunct1] a2 j2 e
    by blast
  show ?thesis
    using a1 j1 r1 c1 a2 j2 r2 c2 by blast
qed

subsection \<open>The requests of the two order endpoints\<close>

lemma call_sent:
  assumes "newRequest L c verb path b = Inr req"
  shows "snd (snd (call L c verb path b dec z (w, sent))) = sent @ [req]"
proof -
  have "snd (call L c verb path b dec z (w, sent)) = snd (doRequest L c req (w, sent))"
    using assms by (simp add: call_def split: prod.splits option.splits sum.splits)
  then show ?thesis by (simp add: doRequest_sent)
qed

text \<open>
  C7. \<open>LimitOrder\<close> for FIGI \<open>BBG000B9XRY4\<close>, 10 lots, operation \<open>Buy\<close> and a price
  whose JSON text is \<open>150.5\<close> hands one request to the transport: a POST to the URL
  parsed from \<open>{apiURL}/orders/limit-order?figi=BBG000B9XRY4\<close> with the body
  \<open>{"lots":10,"operation":"Buy","price":150.5}\<close>.
\<close>

theorem LimitOrder_request:
  assumes "json_Marshal_float L price = Some ''150.5''"
    and "json_Marshal_string L ''Buy'' = ''\"Buy\"''"
    and "http_NewRequest_URL L ''POST'' (apiURL c @ ''/orders/limit-order?figi=BBG000B9XRY4'') = Some u"
  shows "snd (snd (LimitOrder L T c ''BBG000B9XRY4'' 10 ''Buy'' price (w, sent))) =
           sent @ [\<lparr>Method = ''POST'', URL = u,
                    Header = [(''Content-Type'', [''application/json'']),
                              (''Authorization'', [''Bearer '' @ token c])],
                    Body = Some ''{\"lots\":10,\"operation\":\"Buy\",\"price\":150.5}''\<rparr>]"
proof -
  have ten: "showInt 10 = ''10''"
    by (simp add: showInt_def digits.simps)
  have "newRequest L c ''POST'' (apiURL c @ ''/orders/limit-order?figi='' @ ''BBG000B9XRY4'')
          (Some (''{\"lots\":'' @ showInt 10 @ '',\"operation\":'' @ json_Marshal_string L ''Buy'' @
                 '',\"price\":'' @ ''150.5'' @ ''}'')) =
        Inr \<lparr>Method = ''POST'', URL = u,
             Header = [(''Content-Type'', [''application/json'']),
                       (''Authorization'', [''Bearer '' @ token c])],
             Body = Some ''{\"lots\":10,\"operation\":\"Buy\",\"price\":150.5}''\<rparr>"
    using assms(2,3) by (simp add: newRequest_def ten)
  then show ?thesis
    unfolding LimitOrder_call [OF assms(1)] by (rule call_sent)
qed

theorem LimitOrder_request_witness:
  "json_Marshal_float testLib (Finite 1505 1) = Some ''150.5'' \<and>
   json_Marshal_string testLib ''Buy'' = ''\"Buy\"'' \<and>
   http_NewRequest_URL testLib ''POST'' (apiURL testClient @ ''/orders/limit-order?figi=BBG000B9XRY4'') =
     Some \<lparr>Scheme = ''https'', Host = ''api-invest.tinkoff.ru'',
           Path = ''/openapi/orders/limit-order'', RawPath = [], RawQuery = ''figi=BBG000B9XRY4''\<rparr> \<and>
   snd (snd (LimitOrder testLib stringType testClient ''BBG000B9XRY4'' 10 ''Buy'' (Finite 1505 1)
               ([Response 200 ''{\"payload\":\"ok\"}''], []))) =
     [\<lparr>Method = ''POST'',
       URL = \<lparr>Scheme = ''https'', Host = ''api-invest.tinkoff.ru'',
              Path = ''/openapi/orders/limit-order'', RawPath = [], RawQuery = ''figi=BBG000B9XRY4''\<rparr>,
       Header = [(''Content-Type'', [''application/json'']), (''Authorization'', [''Bearer t0ken''])],
       Body = Some ''{\"lots\":10,\"operation\":\"Buy\",\"price\":150.5}''\<rparr>]"
proof -
  have h1: "json_Marshal_float testLib (Finite 1505 1) = Some ''150.5''"
    by (simp add: testLib_def showDecimal_def digits.simps)
  have h2: "json_Marshal_string testLib ''Buy'' = ''\"Buy\"''"
    by (simp add: testLib_def test_Marshal_string_def escapeChar_def)
  have h3: "http_NewRequest_URL testLib ''POST''
              (apiURL testClient @ ''/orders/limit-order?figi=BBG000B9XRY4'') =
            Some \<lparr>Scheme = ''https'', Host = ''api-invest.tinkoff.ru'',
                  Path = ''/openapi/orders/limit-order'', RawPath = [],
                  RawQuery = ''figi=BBG000B9XRY4''\<rparr>"
    by (simp add: test_defs isLetter_def isDigit_def)
  have t: "token testClient = ''t0ken''"
    by (simp add: testClient_def NewTradingClientCustom_def)
  show ?thesis
    using h1 h2 h3
      LimitOrder_request [OF h1 h2 h3, of stringType "[Response 200 ''{\"payload\":\"ok\"}'']" "[]"]
    by (simp add: t)
qed

text \<open>
  C8. \<open>OrderCancel\<close> with the id \<open>42\<close> hands one request to the transport, a POST to
  the URL parsed from \<open>{apiURL}/orders/cancel?orderId=42\<close> with a body of no bytes; and
  when the answer has status 200 it returns no error, whatever the body is and whatever the
  JSON scanner would make of it.
\<close>

theorem OrderCancel_42:
  assumes "http_NewRequest_URL L ''POST'' (apiURL c @ ''/orders/cancel?orderId=42'') = Some u"
    and "req = \<lparr>Method = ''POST'', URL = u,
                 Header = [(''Content-Type'', [''application/json'']),
                           (''Authorization'', [''Bearer '' @ token c])],
                 Body = Some []\<rparr>"
  shows "snd (snd (OrderCancel L c ''42'' (w, sent))) = sent @ [req] \<and>
         (http_Do L (httpClient_Timeout c) req w = (Response 200 body, w') \<longrightarrow>
            OrderCancel (L\<lparr>json_scan := scan, json_typeError := msg\<rparr>) c ''42'' (w, sent) =
              (None, (w', sent @ [req])))"
proof -
  have n: "newRequest L' c ''POST'' (apiURL c @ ''/orders/cancel?orderId='' @ ''42'') (Some []) = Inr req"
    if "http_NewRequest_URL L' = http_NewRequest_URL L" for L' :: "('a, 'b, 'c) lib"
    using assms that by (simp add: newRequest_def)
  have "snd (OrderCancel L c ''42'' (w, sent)) = snd (doRequest L c req (w, sent))"
    using n [of L] by (simp add: OrderCancel_def postJSONThrow_def split: prod.splits)
  then have 1: "snd (snd (OrderCancel L c ''42'' (w, sent))) = sent @ [req]"
    by (simp add: doRequest_sent)
  have 2: "OrderCancel (L\<lparr>json_scan := scan, json_typeError := msg\<rparr>) c ''42'' (w, sent) =
              (None, (w', sent @ [req]))"
    if "http_Do L (httpClient_Timeout c) req w = (Response 200 body, w')"
    using n [of "L\<lparr>json_scan := scan, json_typeError := msg\<rparr>"] that
    by (simp add: OrderCancel_def postJSONThrow_def doRequest_def)
  show ?thesis using 1 2 by blast
qed

theorem OrderCancel_42_witness:
  "http_NewRequest_URL testLib ''POST'' (apiURL testClient @ ''/orders/cancel?orderId=42'') =
     Some \<lparr>Scheme = ''https'', Host = ''api-invest.tinkoff.ru'', Path = ''/openapi/orders/cancel'',
           RawPath = [], RawQuery = ''orderId=42''\<rparr> \<and>
   snd (snd (OrderCancel testLib testClient ''42'' ([Response 200 ''<html>not JSON''], []))) =
     [\<lparr>Method = ''POST'',
       URL = \<lparr>Scheme = ''https'', Host = ''api-invest.tinkoff.ru'', Path = ''/openapi/orders/cancel'',
              RawPath = [], RawQuery = ''orderId=42''\<rparr>,
       Header = [(''Content-Type'', [''application/json'']), (''Authorization'', [''Bearer t0ken''])],
       Body = Some []\<rparr>] \<and>
   OrderCancel testLib testClient ''42'' ([Response 200 ''<html>not JSON''], []) =
     (None, ([],
       [\<lparr>Method = ''POST'',
         URL = \<lparr>Scheme = ''https'', Host = ''api-invest.tinkoff.ru'', Path = ''/openapi/orders/cancel'',
                RawPath = [], RawQuery = ''orderId=42''\<rparr>,
         Header = [(''Content-Type'', [''application/json'']), (''Authorization'', [''Bearer t0ken''])],
         Body = Some []\<rparr>]))"
proof -
  let ?u = "\<lparr>Scheme = ''https'', Host = ''api-invest.tinkoff.ru'', Path = ''/openapi/orders/cancel'',
           RawPath = [], RawQuery = ''orderId=42''\<rparr>"
  let ?req = "\<lparr>Method = ''POST'', URL = ?u,
       Header = [(''Content-Type'', [''application/json'']), (''Authorization'', [''Bearer '' @ token testClient])],
       Body = Some []\<rparr>"
  have h1: "http_NewRequest_URL testLib ''POST'' (apiURL testClient @ ''/orders/cancel?orderId=42'') = Some ?u"
    by (simp add: test_defs isLetter_def isDigit_def)
  have h2: "http_Do testLib (httpClient_Timeout testClient) ?req [Response 200 ''<html>not JSON''] =
              (Response 200 ''<html>not JSON'', [])"
    by (simp add: testLib_def test_Do_def)
  have t: "token testClient = ''t0ken''"
    by (simp add: testClient_def NewTradingClientCustom_def)
  have l: "testLib\<lparr>json_scan := json_scan testLib, json_typeError := json_typeError testLib\<rparr> = testLib"
    by simp
  note o = OrderCancel_42 [OF h1 refl, where w = "[Response 200 ''<html>not JSON'']" and sent = "[]"
      and body = "''<html>not JSON''" and w' = "[]" and scan = "json_scan testLib"
      and msg = "json_typeError testLib"]
  show ?thesis
    using h1 h2 o unfolding l by (simp add: t)
qed

subsection \<open>Errors and their context\<close>












text \<open>
  The messages \<open>doRequest\<close> makes itself name \<^verbatim>\<open>req.URL.RawPath\<close>, which is empty for
  a URL in default encoding: for the request to \<open>{apiURL}/orders\<close>, neither the generic
  error of a 500 response nor the wrapper of a transport failure contains the URL or its
  path.
\<close>

lemma doRequest_messages_name_RawPath:
  "fst (Orders testLib stringType testClient ([Response 500 ''oops''], [])) =
     (NilSlice, Some (Errorf ''bad response to  code=500, body=oops'')) \<and>
   \<not> sublist ''/openapi/orders'' ''bad response to  code=500, body=oops'' \<and>
   fst (Orders testLib stringType testClient ([DoFailed ''dial tcp: i/o timeout''], [])) =
     (NilSlice, Some (Wrapf (LibError ''dial tcp: i/o timeout'') ''can't do request to '')) \<and>
   Error (Wrapf (LibError ''dial tcp: i/o timeout'') ''can't do request to '') =
     ''can't do request to : dial tcp: i/o timeout''"
proof -
  have "fst (Orders testLib stringType testClient ([Response 500 ''oops''], [])) =
     (NilSlice, Some (Errorf ''bad response to  code=500, body=oops''))"
    by (simp add: Orders_def newRequest_def doRequest_def json_Unmarshal_def
        test_defs scan_defs showInt_def digits.simps)
  moreover have "\<not> sublist ''/openapi/orders'' ''bad response to  code=500, body=oops''"
    by (simp add: sublist_code(3))
  moreover have "fst (Orders testLib stringType testClient ([DoFailed ''dial tcp: i/o timeout''], [])) =
     (NilSlice, Some (Wrapf (LibError ''dial tcp: i/o timeout'') ''can't do request to ''))"
    by (simp add: Orders_def newRequest_def doRequest_def test_defs isLetter_def isDigit_def)
  ultimately show ?thesis by simp
qed

subsection \<open>A body without the payload field\<close>

lemma decodeMembers_no_match:
  assumes "list_all (\<lambda>(k, x). findField names k = None) kvs"
  shows "decodeMembers setField names kvs v = Some v"
  using assms by (induction kvs) auto

lemma decodeMembers_None:
  assumes "decodeMembers setField names kvs v = None"
  shows "\<exists>k x n v'. (k, x) \<in> set kvs \<and> findField names k = Some n \<and> setField n x v' = None"
  using assms
proof (induction kvs arbitrary: v)
  case Nil
  then show ?case by simp
next
  case (Cons kx kvs)
  obtain k x where kx: "kx = (k, x)" by (cases kx)
  show ?case
  proof (cases "findField names k")
    case None
    then have "decodeMembers setField names kvs v = None"
      using Cons.prems kx by simp
    from Cons.IH [OF this] show ?thesis by auto
  next
    case (Some n)
    show ?thesis
    proof (cases "setField n x v")
      case None
      then show ?thesis using Some kx by auto
    next
      case (Some v1)
      then have "decodeMembers setField names kvs v1 = None"
        using Cons.prems kx \<open>findField names k = Some n\<close> by simp
      from Cons.IH [OF this] show ?thesis by auto
    qed
  qed
qed

lemma findField_single:
  assumes "findField [n0] k = Some n"
  shows "n = n0"
  using assms by (auto simp: findField_def split: if_splits)

lemma call_decodesPayload:
  assumes "answers_200 L c verb path b body w w'"
  shows "decodesPayload L body decP z
           (fst (call L c verb path b (decodeStruct (\<lambda>n. decP) [''payload'']) z (w, sent)))"
proof -
  let ?dec = "decodeStruct (\<lambda>n. decP) [''payload'']"
  let ?r = "fst (call L c verb path b ?dec z (w, sent))"
  from assms obtain req where n: "newRequest L c verb path b = Inr req"
    and d: "http_Do L (httpClient_Timeout c) req w = (Response 200 body, w')"
    by (auto simp: answers_200_def split: sum.splits)
  have r: "?r = (case json_Unmarshal L ?dec body z of
                   Inl e \<Rightarrow> (z, Some (Wrapf e (''can't unmarshal response to '' @ path @
                                                '', respBody='' @ body)))
                 | Inr v \<Rightarrow> (v, None))"
    by (simp add: call_Response_200 [OF n d] split: sum.splits)
  have absent: "?r = (z, None)" if j: "json_scan L body = Inr j" and l: "lacksField ''payload'' j" for j
  proof -
    have "?dec j z = Some z"
      using l by (cases j) (simp_all add: lacksField_def decodeStruct_def decodeMembers_no_match)
    then show ?thesis using r j by (simp add: json_Unmarshal_def)
  qed
  have cause: "(\<exists>m. json_scan L body = Inl m) \<or>
         (\<exists>j. json_scan L body = Inr j \<and> \<not> isObjectOrNull j) \<or>
         (\<exists>kvs k x v. json_scan L body = Inr (JObj kvs) \<and> (k, x) \<in> set kvs \<and>
            findField [''payload''] k = Some ''payload'' \<and> decP x v = None)"
    if e: "snd ?r \<noteq> None"
  proof (cases "json_scan L body")
    case (Inl m)
    then show ?thesis by blast
  next
    case (Inr j)
    have f: "?dec j z = None"
      using e r Inr by (simp add: json_Unmarshal_def split: option.splits)
    show ?thesis
    proof (cases "isObjectOrNull j")
      case False
      then show ?thesis using Inr by blast
    next
      case True
      then obtain kvs where kvs: "j = JObj kvs"
        using f by (cases j) (simp_all add: isObjectOrNull_def decodeStruct_def)
      then have "decodeMembers (\<lambda>n. decP) [''payload''] kvs z = None"
        using f by (simp add: decodeStruct_def)
      from decodeMembers_None [OF this] obtain k x n v
        where m: "(k, x) \<in> set kvs" "findField [''payload''] k = Some n" "decP x v = None"
        by blast
      from findField_single [OF m(2)] m Inr kvs show ?thesis by blast
    qed
  qed
  show ?thesis
    unfolding decodesPayload_def using absent cause by blast
qed

text \<open>
  C10, as the code has it. On a 200 response whose body is \<^verbatim>\<open>null\<close> or an object
  without a member decoded into the field \<open>payload\<close>, every endpoint returns the zero
  value of its payload type and no error; and it returns an error only when the body is
  not a JSON text, or its value is neither an object nor \<^verbatim>\<open>null\<close>, or a member decoded
  into the field \<open>payload\<close> does not fit the payload type.
\<close>

theorem payload_absent_or_unfit:
  "(answers_200 L c ''GET'' (apiURL c @ ''/market/search/by-figi?figi='' @ figi) None body w w' \<longrightarrow>
      decodesPayload L body (decodeOf T) (zeroOf T)
        (fst (SearchInstrumentByFIGI L T c figi (w, sent)))) \<and>
   (answers_200 L c ''GET'' path None body w w' \<longrightarrow>
      decodesPayload L body
        (decodeStruct (\<lambda>n. decodeSlice (decodeOf T) (zeroOf T)) [''instruments'']) NilSlice
        (fst (instruments L T c path (w, sent)))) \<and>
   (answers_200 L c ''GET''
      (apiURL c @ ''/operations?'' @
       (if figi \<noteq> [] then ''figi='' @ url_QueryEscape L figi @ ''&'' else []) @
       ''from='' @ url_QueryEscape L (time_Format_RFC3339 L from) @
       ''&interval='' @ url_QueryEscape L interval) None body w w' \<longrightarrow>
      decodesPayload L body (decodeSlice (decodeOf T) (zeroOf T)) NilSlice
        (fst (Operations L T c from interval figi (w, sent)))) \<and>
   (answers_200 L c ''GET'' (apiURL c @ ''/portfolio'') None body w w' \<longrightarrow>
      decodesPayload L body
        (decodeStruct (\<lambda>n. decodeSlice (decodeOf T) (zeroOf T)) [''positions'']) NilSlice
        (fst (PositionsPortfolio L T c (w, sent)))) \<and>
   (answers_200 L c ''GET'' (apiURL c @ ''/portfolio/currencies'') None body w w' \<longrightarrow>
      decodesPayload L body
        (decodeStruct (\<lambda>n. decodeSlice (decodeOf T) (zeroOf T)) [''currencies'']) NilSlice
        (fst (CurrenciesPortfolio L T c (w, sent)))) \<and>
   (json_Marshal_float L price = Some priceText \<and>
    answers_200 L c ''POST'' (apiURL c @ ''/orders/limit-order?figi='' @ figi)
      (Some (''{\"lots\":'' @ showInt lots @ '',\"operation\":'' @ json_Marshal_string L operation @
             '',\"price\":'' @ priceText @ ''}'')) body w w' \<longrightarrow>
      decodesPayload L body (decodeOf T) (zeroOf T)
        (fst (LimitOrder L T c figi lots operation price (w, sent)))) \<and>
   (answers_200 L c ''GET'' (apiURL c @ ''/orders'') None body w w' \<longrightarrow>
      decodesPayload L body (decodeSlice (decodeOf T) (zeroOf T)) NilSlice
        (fst (Orders L T c (w, sent))))"
proof (intro conjI impI; (elim conjE)?)
  assume "answers_200 L c ''GET'' (apiURL c @ ''/market/search/by-figi?figi='' @ figi) None body w w'"
  then show "decodesPayload L body (decodeOf T) (zeroOf T)
        (fst (SearchInstrumentByFIGI L T c figi (w, sent)))"
    unfolding SearchInstrumentByFIGI_call by (rule call_decodesPayload)
next
  assume "answers_200 L c ''GET'' path None body w w'"
  then show "decodesPayload L body
        (decodeStruct (\<lambda>n. decodeSlice (decodeOf T) (zeroOf T)) [''instruments'']) NilSlice
        (fst (instruments L T c path (w, sent)))"
    unfolding instruments_call by (rule call_decodesPayload)
next
  assume "answers_200 L c ''GET''
      (apiURL c @ ''/operations?'' @
       (if figi \<noteq> [] then ''figi='' @ url_QueryEscape L figi @ ''&'' else []) @
       ''from='' @ url_QueryEscape L (time_Format_RFC3339 L from) @
       ''&interval='' @ url_QueryEscape L interval) None body w w'"
  then show "decodesPayload L body (decodeSlice (decodeOf T) (zeroOf T)) NilSlice
        (fst (Operations L T c from interval figi (w, sent)))"
    unfolding Operations_call by (rule call_decodesPayload)
next
  assume "answers_200 L c ''GET'' (apiURL c @ ''/portfolio'') None body w w'"
  then show "decodesPayload L body
        (decodeStruct (\<lambda>n. decodeSlice (decodeOf T) (zeroOf T)) [''positions'']) NilSlice
        (fst (PositionsPortfolio L T c (w, sent)))"
    unfolding PositionsPortfolio_call by (rule call_decodesPayload)
next
  assume "answers_200 L c ''GET'' (apiURL c @ ''/portfolio/currencies'') None body w w'"
  then show "decodesPayload L body
        (decodeStruct (\<lambda>n. decodeSlice (decodeOf T) (zeroOf T)) [''currencies'']) NilSlice
        (fst (CurrenciesPortfolio L T c (w, sent)))"
    unfolding CurrenciesPortfolio_call by (rule call_decodesPayload)
next
  assume m: "json_Marshal_float L price = Some priceText"
    and a: "answers_200 L c ''POST'' (apiURL c @ ''/orders/limit-order?figi='' @ figi)
      (Some (''{\"lots\":'' @ showInt lots @ '',\"operation\":'' @ json_Marshal_string L operation @
             '',\"price\":'' @ priceText @ ''}'')) body w w'"
  show "decodesPayload L body (decodeOf T) (zeroOf T)
        (fst (LimitOrder L T c figi lots operation price (w, sent)))"
    unfolding LimitOrder_call [OF m] by (rule call_decodesPayload [OF a])
next
  assume "answers_200 L c ''GET'' (apiURL c @ ''/orders'') None body w w'"
  then show "decodesPayload L body (decodeSlice (decodeOf T) (zeroOf T)) NilSlice
        (fst (Orders L T c (w, sent)))"
    unfolding Orders_call by (rule call_decodesPayload)
qed

theorem payload_absent_or_unfit_witness:
  "answers_200 testLib testClient ''GET'' (apiURL testClient @ ''/orders'') None ''{}''
     [Response 200 ''{}''] [] \<and>
   decodesPayload testLib ''{}'' (decodeSlice (decodeOf stringType) (zeroOf stringType)) NilSlice
     (fst (Orders testLib stringType testClient ([Response 200 ''{}''], []))) \<and>
   json_scan testLib ''{}'' = Inr (JObj []) \<and>
   lacksField ''payload'' (JObj []) \<and>
   fst (Orders testLib stringType testClient ([Response 200 ''{}''], [])) = (NilSlice, None)"
proof -
  have a: "answers_200 testLib testClient ''GET'' (apiURL testClient @ ''/orders'') None ''{}''
     [Response 200 ''{}''] []"
    by (simp add: answers_200_def newRequest_def test_defs isLetter_def isDigit_def)
  have d: "decodesPayload testLib ''{}'' (decodeSlice (decodeOf stringType) (zeroOf stringType)) NilSlice
     (fst (Orders testLib stringType testClient ([Response 200 ''{}''], [])))"
    using payload_absent_or_unfit [where L = testLib and c = testClient and T = stringType
        and body = "''{}''" and w = "[Response 200 ''{}'']" and w' = "[]" and sent = "[]"] a
    by blast
  have j: "json_scan testLib ''{}'' = Inr (JObj [])"
    by (simp add: testLib_def scan_defs)
  have l: "lacksField ''payload'' (JObj [])"
    by (simp add: lacksField_def)
  have "fst (Orders testLib stringType testClient ([Response 200 ''{}''], [])) = (NilSlice, None)"
    using d j l unfolding decodesPayload_def by blast
  then show ?thesis using a d j l by blast
qed

text \<open>
  C10 as stated fails: the body \<open>[]\<close> is a JSON text without a \<open>payload\<close> field, and
  \<open>Orders\<close> returns a decode error for it, not the zero value.
\<close>

theorem valid_JSON_without_payload_counterexample:
  "json_scan testLib ''[]'' = Inr (JArr []) \<and>
   fst (Orders testLib stringType testClient ([Response 200 ''[]''], [])) =
     (NilSlice,
      Some (Wrapf (LibError ''json: cannot unmarshal value into Go value'')
              ''can't unmarshal response to https://api-invest.tinkoff.ru/openapi/orders, respBody=[]''))"
  by (simp add: Orders_def newRequest_def doRequest_def json_Unmarshal_def decodeStruct_def
      test_defs scan_defs)

end
